theory Spec2Isabelle
  imports Complex_Main "HOL-Library.Sublist" "HOL-Library.Multiset"
begin

section \<open>JavaScript values used by the products data-access module\<close>

text \<open>
  The module \<^verbatim>\<open>src/backend/server/server.js\<close> (second part, the products data-access
  functions) only inspects its arguments through truthiness (\<^verbatim>\<open>if (data.name)\<close>) and
  through one comparison (\<^verbatim>\<open>data.price <= 0\<close>); everything else is handed to
  \<^verbatim>\<open>client.query\<close> untouched.  Field values are the JavaScript primitives a JSON
  request body carries.  A number is a finite real or one of the three special IEEE
  values; the two zeros are one value \<open>Fin 0\<close> (both are falsy and both are \<open>\<le> 0\<close>).
\<close>

datatype jsnum = Fin real | PosInf | NegInf | NaN

datatype jsval = JUndefined | JNull | JBool bool | JNum jsnum | JStr string

text \<open>ECMAScript \<^verbatim>\<open>ToBoolean\<close>: what \<^verbatim>\<open>if (v)\<close> tests.\<close>

fun ToBoolean :: "jsval \<Rightarrow> bool" where
  "ToBoolean JUndefined = False"
| "ToBoolean JNull = False"
| "ToBoolean (JBool b) = b"
| "ToBoolean (JNum (Fin r)) = (r \<noteq> 0)"
| "ToBoolean (JNum NaN) = False"
| "ToBoolean (JNum PosInf) = True"
| "ToBoolean (JNum NegInf) = True"
| "ToBoolean (JStr s) = (s \<noteq> [])"

text \<open>
  ECMAScript \<^verbatim>\<open>ToNumber\<close>.  The conversion of a string (\<^verbatim>\<open>StringToNumber\<close>, a built-in
  of the language and no part of the module) is the parameter \<open>S\<close>.
\<close>

fun ToNumber :: "(string \<Rightarrow> jsnum) \<Rightarrow> jsval \<Rightarrow> jsnum" where
  "ToNumber S JUndefined = NaN"
| "ToNumber S JNull = Fin 0"
| "ToNumber S (JBool b) = Fin (if b then 1 else 0)"
| "ToNumber S (JNum n) = n"
| "ToNumber S (JStr s) = S s"

fun num_le_zero :: "jsnum \<Rightarrow> bool" where
  "num_le_zero (Fin r) = (r \<le> 0)"
| "num_le_zero NegInf = True"
| "num_le_zero PosInf = False"
| "num_le_zero NaN = False"

text \<open>The source expression \<^verbatim>\<open>v <= 0\<close>: both sides are converted to numbers.\<close>

definition js_le_zero :: "(string \<Rightarrow> jsnum) \<Rightarrow> jsval \<Rightarrow> bool" where
  "js_le_zero S v = num_le_zero (ToNumber S v)"

text \<open>Number-to-string of a non-negative integer, as the template \<^verbatim>\<open>$${fields.length + 1}\<close> needs it.\<close>

definition digit_char :: "nat \<Rightarrow> char" where
  "digit_char d = ''0123456789'' ! d"

function show_nat :: "nat \<Rightarrow> string" where
  "show_nat n = (if n < 10 then [digit_char n] else show_nat (n div 10) @ [digit_char (n mod 10)])"
  by pat_completeness auto
termination
  by (relation "measure (\<lambda>n. n)") auto

declare show_nat.simps [simp del]

text \<open>\<^verbatim>\<open>Array.prototype.join\<close> on an array of strings.\<close>

fun join :: "string \<Rightarrow> string list \<Rightarrow> string" where
  "join sep [] = []"
| "join sep [x] = x"
| "join sep (x # y # ys) = x @ sep @ join sep (y # ys)"

section \<open>The store client, envelopes and the effects of a call\<close>

text \<open>
  An error thrown by \<^verbatim>\<open>client.query\<close> is an \<^verbatim>\<open>Error\<close> object; the module reads its
  \<^verbatim>\<open>message\<close>.
\<close>

datatype js_error = Error (message: string)

record 'row query_result =
  rows :: "'row list"
  rowCount :: nat

text \<open>
  \<^verbatim>\<open>client.query(text, values)\<close>: given the state of the store it either throws
  (\<open>Inl\<close>) or resolves to a result (\<open>Inr\<close>), and leaves a new state of the store.
  The client module \<^verbatim>\<open>../client.js\<close> and the database behind it are not part of the
  source; the operations below take the client as a parameter.
\<close>

type_synonym ('db, 'row) client =
  "string \<Rightarrow> jsval list \<Rightarrow> 'db \<Rightarrow> (js_error + 'row query_result) \<times> 'db"

datatype console_entry = ConsoleError string "js_error option"

text \<open>
  What a call can touch: the store, and the console.  \<open>issued\<close> records every query handed
  to the client, in order, so that "no query is executed" is a statement about the state.
\<close>

record 'db world =
  db :: 'db
  issued :: "(string \<times> jsval list) list"
  console :: "console_entry list"

text \<open>The result envelopes \<^verbatim>\<open>{success: ..., ...}\<close> of the module; \<open>None\<close> is \<^verbatim>\<open>undefined\<close>.\<close>

datatype 'row envelope =
    SuccessProduct "'row option"
  | SuccessProducts "'row list"
  | SuccessItem "'row option"
  | Success
  | Failure string

text \<open>A call either throws (\<open>Inl\<close>) or returns (\<open>Inr\<close>), and leaves a world.\<close>

type_synonym ('db, 'a) js = "'db world \<Rightarrow> (js_error + 'a) \<times> 'db world"

definition client_query ::
  "('db, 'row) client \<Rightarrow> string \<Rightarrow> jsval list \<Rightarrow> ('db, 'row query_result) js" where
  "client_query c q vs w =
     (case c q vs (db w) of
        (r, d') \<Rightarrow> (r, w\<lparr>db := d', issued := issued w @ [(q, vs)]\<rparr>))"

definition console_error :: "string \<Rightarrow> js_error option \<Rightarrow> 'db world \<Rightarrow> 'db world" where
  "console_error label e w = w\<lparr>console := console w @ [ConsoleError label e]\<rparr>"

text \<open>\<^verbatim>\<open>try { body } catch (error) { handler }\<close>: the handler may itself throw.\<close>

definition try_catch ::
  "('db, 'a) js \<Rightarrow> (js_error \<Rightarrow> ('db, 'a) js) \<Rightarrow> ('db, 'a) js" where
  "try_catch body handler w =
     (case body w of
        (Inl e, w') \<Rightarrow> handler e w'
      | (Inr v, w') \<Rightarrow> (Inr v, w'))"

text \<open>\<^verbatim>\<open>rows[0]\<close>: \<^verbatim>\<open>undefined\<close> on an empty array.\<close>

fun index0 :: "'a list \<Rightarrow> 'a option" where
  "index0 [] = None"
| "index0 (x # xs) = Some x"

section \<open>The five operations\<close>

definition NL :: string where
  "NL = [CHR 0x0A]"

definition returning_clause :: string where
  "returning_clause =
     ''RETURNING id, name, description, price, category_id, image_url, created_at, updated_at;''"

subsection \<open>createProduct\<close>

definition insert_text :: string where
  "insert_text =
     NL @ ''      INSERT INTO products (name, description, price, category_id, image_url) '' @
     NL @ ''      VALUES ($1, $2, $3, $4, $5) '' @ returning_clause @
     NL @ ''      ''"

definition createProduct_try ::
  "('db, 'row) client \<Rightarrow> jsval \<Rightarrow> jsval \<Rightarrow> jsval \<Rightarrow> jsval \<Rightarrow> jsval \<Rightarrow> ('db, 'row envelope) js" where
  "createProduct_try c name description price category_id image_url w =
     (case client_query c insert_text [name, description, price, category_id, image_url] w of
        (Inl e, w') \<Rightarrow> (Inl e, w')
      | (Inr res, w') \<Rightarrow> (Inr (SuccessProduct (index0 (rows res))), w'))"

definition createProduct ::
  "('db, 'row) client \<Rightarrow> jsval \<Rightarrow> jsval \<Rightarrow> jsval \<Rightarrow> jsval \<Rightarrow> jsval \<Rightarrow> ('db, 'row envelope) js" where
  "createProduct c name description price category_id image_url =
     try_catch (createProduct_try c name description price category_id image_url)
       (\<lambda>error w. (Inr (Failure (message error)),
                    console_error ''ERROR CREATING PRODUCT: '' (Some error) w))"

subsection \<open>getProducts\<close>

definition select_all_text :: string where
  "select_all_text =
     NL @ ''      SELECT * FROM products'' @
     NL @ ''      ORDER BY created_at DESC;'' @
     NL @ ''    ''"

definition getProducts_try :: "('db, 'row) client \<Rightarrow> ('db, 'row envelope) js" where
  "getProducts_try c w =
     (case client_query c select_all_text [] w of
        (Inl e, w') \<Rightarrow> (Inl e, w')
      | (Inr res, w') \<Rightarrow> (Inr (SuccessProducts (rows res)), w'))"

definition getProducts :: "('db, 'row) client \<Rightarrow> ('db, 'row envelope) js" where
  "getProducts c =
     try_catch (getProducts_try c)
       (\<lambda>error w. (Inr (Failure (message error)),
                    console_error ''ERROR FETCHING PRODUCTS: '' (Some error) w))"

subsection \<open>getSingleProduct\<close>

definition select_one_text :: string where
  "select_one_text =
     NL @ ''      SELECT * FROM products'' @
     NL @ ''      WHERE id = $1;'' @
     NL @ ''      ''"

definition getSingleProduct_try :: "('db, 'row) client \<Rightarrow> jsval \<Rightarrow> ('db, 'row envelope) js" where
  "getSingleProduct_try c product_id w =
     (case client_query c select_one_text [product_id] w of
        (Inl e, w') \<Rightarrow> (Inl e, w')
      | (Inr res, w') \<Rightarrow>
          if length (rows res) = 0
          then (Inr (Failure ''Item not found''), console_error ''Item not found'' None w')
          else (Inr (SuccessItem (index0 (rows res))), w'))"

definition getSingleProduct :: "('db, 'row) client \<Rightarrow> jsval \<Rightarrow> ('db, 'row envelope) js" where
  "getSingleProduct c product_id =
     try_catch (getSingleProduct_try c product_id)
       (\<lambda>error w. (Inr (Failure (message error)),
                    console_error ''ERROR FETCHING PRODUCT: '' (Some error) w))"

subsection \<open>updateProduct\<close>

text \<open>
  The pair of pushes
  \<^verbatim>\<open>fields.push(`col = $${fields.length + 1}`); values.push(v);\<close>
  on the two arrays (\<open>flds\<close> is the source's \<^verbatim>\<open>fields\<close>, \<open>vals\<close> its \<^verbatim>\<open>values\<close>).
\<close>

definition push_field :: "string \<Rightarrow> jsval \<Rightarrow> string list \<times> jsval list \<Rightarrow> string list \<times> jsval list" where
  "push_field col v fv =
     (case fv of (flds, vals) \<Rightarrow>
        (flds @ [col @ '' = $'' @ show_nat (length flds + 1)], vals @ [v]))"

definition update_text :: "string list \<Rightarrow> string" where
  "update_text flds =
     NL @ ''      UPDATE products '' @
     NL @ ''      SET '' @ join '', '' flds @ '' '' @
     NL @ ''      WHERE id = $'' @ show_nat (length flds + 1) @ '' '' @
     NL @ ''      '' @ returning_clause @
     NL @ ''    ''"

text \<open>The argument \<^verbatim>\<open>data\<close>: an object read at five properties; an absent one is \<^verbatim>\<open>undefined\<close>.\<close>

record product_data =
  name :: jsval
  description :: jsval
  price :: jsval
  category_id :: jsval
  image_url :: jsval

definition updateProduct_try ::
  "(string \<Rightarrow> jsnum) \<Rightarrow> ('db, 'row) client \<Rightarrow> jsval \<Rightarrow> product_data \<Rightarrow> ('db, 'row envelope) js" where
  "updateProduct_try S c product_id data w =
     (let fv0 = ([], []);
          fv1 = (if ToBoolean (name data) then push_field ''name'' (name data) fv0 else fv0);
          fv2 = (if ToBoolean (description data)
                 then push_field ''description'' (description data) fv1 else fv1)
      in if ToBoolean (price data) \<and> js_le_zero S (price data)
         then (Inr (Failure ''Price must be a positive number.''), w)
         else
           let fv3 = (if ToBoolean (price data) then push_field ''price'' (price data) fv2 else fv2);
               fv4 = (if ToBoolean (category_id data)
                      then push_field ''category_id'' (category_id data) fv3 else fv3);
               fv5 = (if ToBoolean (image_url data)
                      then push_field ''image_url'' (image_url data) fv4 else fv4)
           in if length (fst fv5) = 0
              then (Inr (Failure ''No fields to update.''), w)
              else
                (case client_query c (update_text (fst fv5)) (snd fv5 @ [product_id]) w of
                   (Inl e, w') \<Rightarrow> (Inl e, w')
                 | (Inr res, w') \<Rightarrow>
                     if length (rows res) = 0
                     then (Inr (Failure ''Product not found.''), w')
                     else (Inr (SuccessProduct (index0 (rows res))), w')))"

definition updateProduct ::
  "(string \<Rightarrow> jsnum) \<Rightarrow> ('db, 'row) client \<Rightarrow> jsval \<Rightarrow> product_data \<Rightarrow> ('db, 'row envelope) js" where
  "updateProduct S c product_id data =
     try_catch (updateProduct_try S c product_id data)
       (\<lambda>error w. (Inr (Failure (message error)),
                    console_error ''ERROR UPDATING PRODUCT: '' (Some error) w))"

subsection \<open>deleteProduct\<close>

definition delete_text :: string where
  "delete_text =
     NL @ ''      DELETE FROM products '' @
     NL @ ''      WHERE id = $1;'' @
     NL @ ''      ''"

definition deleteProduct_try :: "('db, 'row) client \<Rightarrow> jsval \<Rightarrow> ('db, 'row envelope) js" where
  "deleteProduct_try c product_id w =
     (case client_query c delete_text [product_id] w of
        (Inl e, w') \<Rightarrow> (Inl e, w')
      | (Inr res, w') \<Rightarrow>
          if rowCount res = 0
          then (Inr (Failure ''Product not found.''), w')
          else (Inr Success, w'))"

definition deleteProduct :: "('db, 'row) client \<Rightarrow> jsval \<Rightarrow> ('db, 'row envelope) js" where
  "deleteProduct c product_id =
     try_catch (deleteProduct_try c product_id)
       (\<lambda>error w. (Inr (Failure (message error)),
                    console_error ''ERROR DELETING PRODUCT: '' (Some error) w))"

section \<open>The relational store\<close>

text \<open>
  Modelled from the spec: the relational store behind \<^verbatim>\<open>client.query\<close>.  The client
  module \<^verbatim>\<open>../client.js\<close>, the schema and the database server are not in the source.
  The spec (sections 3 and 6) gives one table \<^verbatim>\<open>products\<close> with the columns
  \<^verbatim>\<open>id, name, description, price, category_id, image_url, created_at, updated_at\<close>, a
  server-generated identifier and server-generated timestamps, and five statement shapes
  with positional placeholders.  A cell of a data column keeps the parameter value it was
  given (\<^verbatim>\<open>undefined\<close> is sent as \<^verbatim>\<open>NULL\<close>); column types and constraints other
  than the integer identifier are not enforced.  Every definition of this section belongs
  to that model; none of them is taken from the source.
\<close>

record product_row =
  row_id :: int
  row_name :: jsval
  row_description :: jsval
  row_price :: jsval
  row_category_id :: jsval
  row_image_url :: jsval
  created_at :: nat
  updated_at :: nat

record pg_db =
  products :: "product_row list"
  next_id :: int
  clock :: nat

text \<open>
  Modelled from the spec: the store reads the statement text.  It is cut into tokens at
  white space, the punctuation \<^verbatim>\<open>( ) , ; = *\<close> being tokens of their own.
\<close>

definition is_space :: "char \<Rightarrow> bool" where
  "is_space c = (c = CHR '' '' \<or> c = CHR 0x0A \<or> c = CHR 0x09 \<or> c = CHR 0x0D)"

definition is_punct :: "char \<Rightarrow> bool" where
  "is_punct c = (c = CHR ''('' \<or> c = CHR '')'' \<or> c = CHR '','' \<or> c = CHR '';'' \<or> c = CHR ''='' \<or> c = CHR ''*'')"

definition flush :: "string \<Rightarrow> string list" where
  "flush word = (if word = [] then [] else [word])"

fun sql_tokens_from :: "string \<Rightarrow> string \<Rightarrow> string list" where
  "sql_tokens_from word [] = flush word"
| "sql_tokens_from word (c # cs) =
     (if is_space c then flush word @ sql_tokens_from [] cs
      else if is_punct c then flush word @ [[c]] @ sql_tokens_from [] cs
      else sql_tokens_from (word @ [c]) cs)"

definition sql_tokens :: "string \<Rightarrow> string list" where
  "sql_tokens s = sql_tokens_from [] s"

definition digit_val :: "char \<Rightarrow> nat option" where
  "digit_val c = (if 48 \<le> (of_char c :: nat) \<and> (of_char c :: nat) \<le> 57 then Some (of_char c - 48) else None)"

fun read_nat_from :: "nat \<Rightarrow> string \<Rightarrow> nat option" where
  "read_nat_from acc [] = Some acc"
| "read_nat_from acc (c # cs) =
     (case digit_val c of None \<Rightarrow> None | Some d \<Rightarrow> read_nat_from (10 * acc + d) cs)"

definition read_nat :: "string \<Rightarrow> nat option" where
  "read_nat s = (if s = [] then None else read_nat_from 0 s)"

fun placeholder :: "string \<Rightarrow> nat option" where
  "placeholder [] = None"
| "placeholder (c # ds) =
     (if c = CHR ''$'' then
        (case read_nat ds of None \<Rightarrow> None | Some n \<Rightarrow> if n = 0 then None else Some n)
      else None)"

text \<open>
  Modelled from the spec: the five statement shapes of section 6.  A text of any other
  shape is a syntax error.
\<close>

datatype statement =
    Insert "nat list"
  | SelectAll
  | SelectOne nat
  | Update "(string \<times> nat) list" nat
  | Delete nat

definition returning_tokens :: "string list" where
  "returning_tokens =
     [''RETURNING'', ''id'', '','', ''name'', '','', ''description'', '','', ''price'', '','',
      ''category_id'', '','', ''image_url'', '','', ''created_at'', '','', ''updated_at'', '';'']"

fun strip_prefix :: "'a list \<Rightarrow> 'a list \<Rightarrow> 'a list option" where
  "strip_prefix [] ys = Some ys"
| "strip_prefix (x # xs) [] = None"
| "strip_prefix (x # xs) (y # ys) = (if x = y then strip_prefix xs ys else None)"

fun parse_placeholders :: "string list \<Rightarrow> (nat list \<times> string list) option" where
  "parse_placeholders [] = None"
| "parse_placeholders (ph # rest) =
     (case placeholder ph of
        None \<Rightarrow> None
      | Some n \<Rightarrow>
          (case rest of
             [] \<Rightarrow> Some ([n], [])
           | sep # rest' \<Rightarrow>
               if sep = '','' then
                 (case parse_placeholders rest' of
                    None \<Rightarrow> None
                  | Some (ns, r) \<Rightarrow> Some (n # ns, r))
               else Some ([n], rest)))"

fun parse_assignments :: "string list \<Rightarrow> ((string \<times> nat) list \<times> string list) option" where
  "parse_assignments (col # eq # ph # rest) =
     (if eq = ''='' then
        (case placeholder ph of
           None \<Rightarrow> None
         | Some n \<Rightarrow>
             (case rest of
                [] \<Rightarrow> Some ([(col, n)], [])
              | sep # rest' \<Rightarrow>
                  if sep = '','' then
                    (case parse_assignments rest' of
                       None \<Rightarrow> None
                     | Some (as, r) \<Rightarrow> Some ((col, n) # as, r))
                  else Some ([(col, n)], rest)))
      else None)"
| "parse_assignments _ = None"

definition parse_where_id :: "string list \<Rightarrow> (nat \<times> string list) option" where
  "parse_where_id toks =
     (case strip_prefix [''WHERE'', ''id'', ''=''] toks of
        None \<Rightarrow> None
      | Some [] \<Rightarrow> None
      | Some (ph # rest) \<Rightarrow> (case placeholder ph of None \<Rightarrow> None | Some n \<Rightarrow> Some (n, rest)))"

definition parse_insert :: "string list \<Rightarrow> statement option" where
  "parse_insert toks =
     (case strip_prefix
             [''INSERT'', ''INTO'', ''products'', ''('', ''name'', '','', ''description'', '','',
              ''price'', '','', ''category_id'', '','', ''image_url'', '')'', ''VALUES'', ''('']
             toks of
        None \<Rightarrow> None
      | Some rest \<Rightarrow>
          (case parse_placeholders rest of
             None \<Rightarrow> None
           | Some (phs, rest') \<Rightarrow>
               if rest' = '')'' # returning_tokens then Some (Insert phs) else None))"

definition parse_select :: "string list \<Rightarrow> statement option" where
  "parse_select toks =
     (case strip_prefix [''SELECT'', ''*'', ''FROM'', ''products''] toks of
        None \<Rightarrow> None
      | Some rest \<Rightarrow>
          if rest = [''ORDER'', ''BY'', ''created_at'', ''DESC'', '';''] then Some SelectAll
          else (case parse_where_id rest of
                  None \<Rightarrow> None
                | Some (n, rest') \<Rightarrow> if rest' = ['';''] then Some (SelectOne n) else None))"

definition parse_update :: "string list \<Rightarrow> statement option" where
  "parse_update toks =
     (case strip_prefix [''UPDATE'', ''products'', ''SET''] toks of
        None \<Rightarrow> None
      | Some rest \<Rightarrow>
          (case parse_assignments rest of
             None \<Rightarrow> None
           | Some (as, rest') \<Rightarrow>
               (case parse_where_id rest' of
                  None \<Rightarrow> None
                | Some (n, rest'') \<Rightarrow>
                    if rest'' = returning_tokens then Some (Update as n) else None)))"

definition parse_delete :: "string list \<Rightarrow> statement option" where
  "parse_delete toks =
     (case strip_prefix [''DELETE'', ''FROM'', ''products''] toks of
        None \<Rightarrow> None
      | Some rest \<Rightarrow>
          (case parse_where_id rest of
             None \<Rightarrow> None
           | Some (n, rest') \<Rightarrow> if rest' = ['';''] then Some (Delete n) else None))"

definition parse_statement :: "string list \<Rightarrow> statement option" where
  "parse_statement toks =
     (case parse_insert toks of Some s \<Rightarrow> Some s | None \<Rightarrow>
      (case parse_select toks of Some s \<Rightarrow> Some s | None \<Rightarrow>
       (case parse_update toks of Some s \<Rightarrow> Some s | None \<Rightarrow> parse_delete toks)))"

text \<open>
  Modelled from the spec: running a statement.  A parameter \<open>$n\<close> is the \<open>n\<close>-th element
  of the values array.  An identifier parameter must read as an integer (\<^verbatim>\<open>NULL\<close>
  matches no row).  \<^verbatim>\<open>UPDATE\<close> writes exactly the columns of its \<^verbatim>\<open>SET\<close> clause, only the
  five data columns can be assigned, and no trigger touches any other column;
  \<^verbatim>\<open>ORDER BY created_at DESC\<close> is a stable sort, newest first.  A statement that
  fails leaves the store as it was.
\<close>

fun placeholders_of :: "statement \<Rightarrow> nat list" where
  "placeholders_of (Insert phs) = phs"
| "placeholders_of SelectAll = []"
| "placeholders_of (SelectOne n) = [n]"
| "placeholders_of (Update as n) = map snd as @ [n]"
| "placeholders_of (Delete n) = [n]"

fun pg_cell :: "jsval \<Rightarrow> jsval" where
  "pg_cell JUndefined = JNull"
| "pg_cell v = v"

definition param :: "jsval list \<Rightarrow> nat \<Rightarrow> jsval" where
  "param vs n = pg_cell (vs ! (n - 1))"

definition read_int :: "string \<Rightarrow> int option" where
  "read_int s =
     (case s of
        [] \<Rightarrow> None
      | c # ds \<Rightarrow>
          if c = CHR ''-'' then map_option (\<lambda>n. - int n) (read_nat ds)
          else map_option int (read_nat s))"

definition bad_integer :: js_error where
  "bad_integer = Error ''invalid input syntax for type integer''"

fun pg_id :: "jsval \<Rightarrow> js_error + int option" where
  "pg_id JNull = Inr None"
| "pg_id (JNum (Fin r)) = (if r = of_int \<lfloor>r\<rfloor> then Inr (Some \<lfloor>r\<rfloor>) else Inl bad_integer)"
| "pg_id (JNum PosInf) = Inl bad_integer"
| "pg_id (JNum NegInf) = Inl bad_integer"
| "pg_id (JNum NaN) = Inl bad_integer"
| "pg_id (JStr s) = (case read_int s of None \<Rightarrow> Inl bad_integer | Some i \<Rightarrow> Inr (Some i))"
| "pg_id (JBool b) = Inl bad_integer"
| "pg_id JUndefined = Inr None"

definition has_id :: "int option \<Rightarrow> product_row \<Rightarrow> bool" where
  "has_id k r = (k = Some (row_id r))"

definition data_columns :: "string list" where
  "data_columns = [''name'', ''description'', ''price'', ''category_id'', ''image_url'']"

definition get_cell :: "string \<Rightarrow> product_row \<Rightarrow> jsval" where
  "get_cell col r =
     (if col = ''name'' then row_name r
      else if col = ''description'' then row_description r
      else if col = ''price'' then row_price r
      else if col = ''category_id'' then row_category_id r
      else if col = ''image_url'' then row_image_url r
      else JUndefined)"

definition set_cell :: "string \<Rightarrow> jsval \<Rightarrow> product_row \<Rightarrow> product_row" where
  "set_cell col v r =
     (if col = ''name'' then r\<lparr>row_name := v\<rparr>
      else if col = ''description'' then r\<lparr>row_description := v\<rparr>
      else if col = ''price'' then r\<lparr>row_price := v\<rparr>
      else if col = ''category_id'' then r\<lparr>row_category_id := v\<rparr>
      else if col = ''image_url'' then r\<lparr>row_image_url := v\<rparr>
      else r)"

fun assign :: "jsval list \<Rightarrow> (string \<times> nat) list \<Rightarrow> product_row \<Rightarrow> product_row" where
  "assign vs [] r = r"
| "assign vs ((col, n) # as) r = assign vs as (set_cell col (param vs n) r)"

definition newest_first :: "product_row list \<Rightarrow> product_row list" where
  "newest_first rs = sort_key (\<lambda>r. - int (created_at r)) rs"

fun exec :: "statement \<Rightarrow> jsval list \<Rightarrow> pg_db \<Rightarrow> (js_error + product_row query_result) \<times> pg_db" where
  "exec (Insert phs) vs d =
     (if length phs \<noteq> 5 then (Inl (Error ''INSERT has more target columns than expressions''), d)
      else
        let r = \<lparr>row_id = next_id d,
                 row_name = param vs (phs ! 0),
                 row_description = param vs (phs ! 1),
                 row_price = param vs (phs ! 2),
                 row_category_id = param vs (phs ! 3),
                 row_image_url = param vs (phs ! 4),
                 created_at = clock d, updated_at = clock d\<rparr>
        in (Inr \<lparr>rows = [r], rowCount = 1\<rparr>,
            d\<lparr>products := products d @ [r], next_id := next_id d + 1, clock := clock d + 1\<rparr>))"
| "exec SelectAll vs d =
     (Inr \<lparr>rows = newest_first (products d), rowCount = length (products d)\<rparr>, d)"
| "exec (SelectOne n) vs d =
     (case pg_id (param vs n) of
        Inl e \<Rightarrow> (Inl e, d)
      | Inr k \<Rightarrow>
          (Inr \<lparr>rows = filter (has_id k) (products d),
                rowCount = length (filter (has_id k) (products d))\<rparr>, d))"
| "exec (Update as n) vs d =
     (if \<not> set (map fst as) \<subseteq> set data_columns
      then (Inl (Error ''column cannot be assigned''), d)
      else if \<not> distinct (map fst as)
      then (Inl (Error ''multiple assignments to same column''), d)
      else
        (case pg_id (param vs n) of
           Inl e \<Rightarrow> (Inl e, d)
         | Inr k \<Rightarrow>
             (Inr \<lparr>rows = map (assign vs as) (filter (has_id k) (products d)),
                   rowCount = length (filter (has_id k) (products d))\<rparr>,
              d\<lparr>products := map (\<lambda>r. if has_id k r then assign vs as r else r) (products d)\<rparr>)))"
| "exec (Delete n) vs d =
     (case pg_id (param vs n) of
        Inl e \<Rightarrow> (Inl e, d)
      | Inr k \<Rightarrow>
          (Inr \<lparr>rows = [], rowCount = length (filter (has_id k) (products d))\<rparr>,
           d\<lparr>products := filter (\<lambda>r. \<not> has_id k r) (products d)\<rparr>))"

text \<open>
  Modelled from the spec: \<^verbatim>\<open>client.query\<close> against this store.  The number of values
  supplied must be the highest placeholder of the statement.
\<close>

definition pg_query :: "(pg_db, product_row) client" where
  "pg_query text vs d =
     (case parse_statement (sql_tokens text) of
        None \<Rightarrow> (Inl (Error ''syntax error''), d)
      | Some stmt \<Rightarrow>
          if fold max (placeholders_of stmt) 0 \<noteq> length vs
          then (Inl (Error ''bind message supplies the wrong number of parameters''), d)
          else exec stmt vs d)"

section \<open>Vocabulary of the properties\<close>

text \<open>
  The fields of an update input that are included in the statement: those whose value is
  truthy, in the order in which the source tests them.
\<close>

definition supplied :: "product_data \<Rightarrow> (string \<times> jsval) list" where
  "supplied data =
     filter (\<lambda>cv. ToBoolean (snd cv))
       [(''name'', name data), (''description'', description data), (''price'', price data),
        (''category_id'', category_id data), (''image_url'', image_url data)]"

text \<open>The price check of the source: it is reached only by a truthy price.\<close>

definition price_rejected :: "(string \<Rightarrow> jsnum) \<Rightarrow> product_data \<Rightarrow> bool" where
  "price_rejected S data = (ToBoolean (price data) \<and> js_le_zero S (price data))"

text \<open>The assignments \<open>col = $i\<close>, numbered from \<open>i\<close> upwards.\<close>

fun numbered :: "nat \<Rightarrow> string list \<Rightarrow> string list" where
  "numbered i [] = []"
| "numbered i (c # cs) = (c @ '' = $'' @ show_nat i) # numbered (Suc i) cs"

text \<open>The \<^verbatim>\<open>SET\<close> clause as the store reads it: each included column with its placeholder.\<close>

definition set_clause :: "product_data \<Rightarrow> (string \<times> nat) list" where
  "set_clause data = zip (map fst (supplied data)) [1..<Suc (length (supplied data))]"

text \<open>An update input with every falsy field removed.\<close>

definition not_provided_if_falsy :: "jsval \<Rightarrow> jsval" where
  "not_provided_if_falsy v = (if ToBoolean v then v else JUndefined)"

definition without_falsy :: "product_data \<Rightarrow> product_data" where
  "without_falsy data =
     \<lparr>name = not_provided_if_falsy (name data),
      description = not_provided_if_falsy (description data),
      price = not_provided_if_falsy (price data),
      category_id = not_provided_if_falsy (category_id data),
      image_url = not_provided_if_falsy (image_url data)\<rparr>"

text \<open>The value an update input gives for a data column.\<close>

definition field_of :: "product_data \<Rightarrow> string \<Rightarrow> jsval" where
  "field_of data col =
     (if col = ''name'' then name data
      else if col = ''description'' then description data
      else if col = ''price'' then price data
      else if col = ''category_id'' then category_id data
      else if col = ''image_url'' then image_url data
      else JUndefined)"

text \<open>Concrete inputs: a string conversion, a store holding one product, and a client that is down.\<close>

definition no_strings :: "string \<Rightarrow> jsnum" where
  "no_strings s = NaN"

definition mug_row :: product_row where
  "mug_row =
     \<lparr>row_id = 1, row_name = JStr ''Mug'', row_description = JStr ''Ceramic mug'',
      row_price = JNum (Fin 9.99), row_category_id = JNum (Fin 3),
      row_image_url = JStr ''http://x/mug.png'', created_at = 0, updated_at = 0\<rparr>"

definition mug_store :: pg_db where
  "mug_store = \<lparr>products = [mug_row], next_id = 2, clock = 1\<rparr>"

definition mug_world :: "pg_db world" where
  "mug_world = \<lparr>db = mug_store, issued = [], console = []\<rparr>"

definition down :: "(pg_db, product_row) client" where
  "down text vs d = (Inl (Error ''connection refused''), d)"

definition no_fields :: product_data where
  "no_fields =
     \<lparr>name = JUndefined, description = JUndefined, price = JUndefined,
      category_id = JUndefined, image_url = JUndefined\<rparr>"

definition zero_price :: product_data where
  "zero_price =
     \<lparr>name = JStr ''Amp'', description = JUndefined, price = JNum (Fin 0),
      category_id = JUndefined, image_url = JUndefined\<rparr>"

definition minus_five :: product_data where
  "minus_five =
     \<lparr>name = JStr ''Amp'', description = JUndefined, price = JNum (Fin (- 5)),
      category_id = JUndefined, image_url = JUndefined\<rparr>"

text \<open>An update input that supplies the description only.\<close>

definition new_description :: product_data where
  "new_description = \<lparr>name = JUndefined, description = JStr ''Stoneware mug'', price = JUndefined,
      category_id = JUndefined, image_url = JUndefined\<rparr>"

text \<open>A second product, created after the first, and two more update inputs.\<close>

definition amp_row :: product_row where
  "amp_row =
     \<lparr>row_id = 2, row_name = JStr ''Amp'', row_description = JStr ''Tube amp'',
      row_price = JNum (Fin 500), row_category_id = JNum (Fin 1),
      row_image_url = JNull, created_at = 1, updated_at = 1\<rparr>"

definition two_products :: "pg_db world" where
  "two_products =
     \<lparr>db = \<lparr>products = [mug_row, amp_row], next_id = 3, clock = 2\<rparr>, issued = [], console = []\<rparr>"

definition name_and_price :: product_data where
  "name_and_price =
     \<lparr>name = JStr ''Amp'', description = JUndefined, price = JNum (Fin 120),
      category_id = JUndefined, image_url = JUndefined\<rparr>"

section \<open>The query builder\<close>

lemma build_supplied:
  "(let fv0 = ([], []);
        fv1 = (if ToBoolean (name data) then push_field ''name'' (name data) fv0 else fv0);
        fv2 = (if ToBoolean (description data)
               then push_field ''description'' (description data) fv1 else fv1);
        fv3 = (if ToBoolean (price data) then push_field ''price'' (price data) fv2 else fv2);
        fv4 = (if ToBoolean (category_id data)
               then push_field ''category_id'' (category_id data) fv3 else fv3);
        fv5 = (if ToBoolean (image_url data)
               then push_field ''image_url'' (image_url data) fv4 else fv4)
    in fv5) = (numbered (Suc 0) (map fst (supplied data)), map snd (supplied data))"
  by (simp add: supplied_def push_field_def Let_def)

lemma length_numbered [simp]: "length (numbered i cs) = length cs"
  by (induction cs arbitrary: i) auto

lemma numbered_nth:
  "i < length cs \<Longrightarrow> numbered j cs ! i = cs ! i @ '' = $'' @ show_nat (j + i)"
  by (induction cs arbitrary: i j) (auto simp: nth_Cons split: nat.splits)

lemma updateProduct_try_eq:
  "updateProduct_try S c product_id data w =
    (if price_rejected S data then (Inr (Failure ''Price must be a positive number.''), w)
     else if supplied data = [] then (Inr (Failure ''No fields to update.''), w)
     else (case client_query c (update_text (numbered (Suc 0) (map fst (supplied data))))
                  (map snd (supplied data) @ [product_id]) w of
                   (Inl e, w') \<Rightarrow> (Inl e, w')
                 | (Inr res, w') \<Rightarrow>
                     if length (rows res) = 0
                     then (Inr (Failure ''Product not found.''), w')
                     else (Inr (SuccessProduct (index0 (rows res))), w')))"
proof -
  have "updateProduct_try S c product_id data w =
    (let fv5 = (let fv0 = ([], []);
        fv1 = (if ToBoolean (name data) then push_field ''name'' (name data) fv0 else fv0);
        fv2 = (if ToBoolean (description data)
               then push_field ''description'' (description data) fv1 else fv1);
        fv3 = (if ToBoolean (price data) then push_field ''price'' (price data) fv2 else fv2);
        fv4 = (if ToBoolean (category_id data)
               then push_field ''category_id'' (category_id data) fv3 else fv3);
        fv5 = (if ToBoolean (image_url data)
               then push_field ''image_url'' (image_url data) fv4 else fv4)
    in fv5) in
     if price_rejected S data then (Inr (Failure ''Price must be a positive number.''), w)
     else if length (fst fv5) = 0 then (Inr (Failure ''No fields to update.''), w)
     else (case client_query c (update_text (fst fv5))
                  (snd fv5 @ [product_id]) w of
                   (Inl e, w') \<Rightarrow> (Inl e, w')
                 | (Inr res, w') \<Rightarrow>
                     if length (rows res) = 0
                     then (Inr (Failure ''Product not found.''), w')
                     else (Inr (SuccessProduct (index0 (rows res))), w')))"
    unfolding updateProduct_try_def price_rejected_def Let_def by simp
  then show ?thesis unfolding build_supplied by (simp add: Let_def)
qed

section \<open>The operations in closed form\<close>

lemma createProduct_eq:
  "createProduct c nm ds pr cat img w =
     (case c insert_text [nm, ds, pr, cat, img] (db w) of
        (Inl e, d') \<Rightarrow>
          (Inr (Failure (message e)),
           console_error ''ERROR CREATING PRODUCT: '' (Some e)
             (w\<lparr>db := d', issued := issued w @
                 [(insert_text, [nm, ds, pr, cat, img])]\<rparr>))
      | (Inr res, d') \<Rightarrow>
          (Inr (SuccessProduct (index0 (rows res))),
           w\<lparr>db := d', issued := issued w @
                 [(insert_text, [nm, ds, pr, cat, img])]\<rparr>))"
  by (simp add: createProduct_def createProduct_try_def try_catch_def client_query_def
      split: prod.splits sum.splits)

lemma getProducts_eq:
  "getProducts c w =
     (case c select_all_text [] (db w) of
        (Inl e, d') \<Rightarrow>
          (Inr (Failure (message e)),
           console_error ''ERROR FETCHING PRODUCTS: '' (Some e)
             (w\<lparr>db := d', issued := issued w @ [(select_all_text, [])]\<rparr>))
      | (Inr res, d') \<Rightarrow>
          (Inr (SuccessProducts (rows res)),
           w\<lparr>db := d', issued := issued w @ [(select_all_text, [])]\<rparr>))"
  by (simp add: getProducts_def getProducts_try_def try_catch_def client_query_def
      split: prod.splits sum.splits)

lemma getSingleProduct_eq:
  "getSingleProduct c product_id w =
     (case c select_one_text [product_id] (db w) of
        (Inl e, d') \<Rightarrow>
          (Inr (Failure (message e)),
           console_error ''ERROR FETCHING PRODUCT: '' (Some e)
             (w\<lparr>db := d', issued := issued w @ [(select_one_text, [product_id])]\<rparr>))
      | (Inr res, d') \<Rightarrow>
          (if rows res = []
           then (Inr (Failure ''Item not found''),
                 console_error ''Item not found'' None
                   (w\<lparr>db := d', issued := issued w @ [(select_one_text, [product_id])]\<rparr>))
           else (Inr (SuccessItem (index0 (rows res))),
                 w\<lparr>db := d', issued := issued w @ [(select_one_text, [product_id])]\<rparr>)))"
  by (simp add: getSingleProduct_def getSingleProduct_try_def try_catch_def client_query_def
      split: prod.splits sum.splits)

lemma updateProduct_eq:
  "updateProduct S c product_id data w =
    (if price_rejected S data then (Inr (Failure ''Price must be a positive number.''), w)
     else if supplied data = [] then (Inr (Failure ''No fields to update.''), w)
     else (case c (update_text (numbered (Suc 0) (map fst (supplied data))))
                  (map snd (supplied data) @ [product_id]) (db w) of
             (Inl e, d') \<Rightarrow>
               (Inr (Failure (message e)),
                console_error ''ERROR UPDATING PRODUCT: '' (Some e)
                  (w\<lparr>db := d', issued := issued w @
                     [(update_text (numbered (Suc 0) (map fst (supplied data))),
                       map snd (supplied data) @ [product_id])]\<rparr>))
           | (Inr res, d') \<Rightarrow>
               (if rows res = []
                then Inr (Failure ''Product not found.'')
                else Inr (SuccessProduct (index0 (rows res))),
                w\<lparr>db := d', issued := issued w @
                     [(update_text (numbered (Suc 0) (map fst (supplied data))),
                       map snd (supplied data) @ [product_id])]\<rparr>)))"
  by (simp add: updateProduct_def try_catch_def updateProduct_try_eq client_query_def
      split: prod.splits sum.splits)

lemma deleteProduct_eq:
  "deleteProduct c product_id w =
     (case c delete_text [product_id] (db w) of
        (Inl e, d') \<Rightarrow>
          (Inr (Failure (message e)),
           console_error ''ERROR DELETING PRODUCT: '' (Some e)
             (w\<lparr>db := d', issued := issued w @ [(delete_text, [product_id])]\<rparr>))
      | (Inr res, d') \<Rightarrow>
          (if rowCount res = 0 then Inr (Failure ''Product not found.'') else Inr Success,
           w\<lparr>db := d', issued := issued w @ [(delete_text, [product_id])]\<rparr>))"
  by (simp add: deleteProduct_def deleteProduct_try_def try_catch_def client_query_def
      split: prod.splits sum.splits)

lemma update_issued:
  "issued (snd (updateProduct S c product_id data w)) =
     issued w @
       (if price_rejected S data \<or> supplied data = [] then []
        else [(update_text (numbered (Suc 0) (map fst (supplied data))),
               map snd (supplied data) @ [product_id])])"
  by (auto simp: updateProduct_eq console_error_def split: prod.splits sum.splits)

section \<open>The fields included in an update\<close>

lemma supplied_columns: "map fst (supplied data) \<in> set (subseqs data_columns)"
proof -
  have "subseq (map fst (supplied data)) data_columns"
    unfolding supplied_def data_columns_def
    by (rule subseq_order.order_trans [OF subseq_map [OF subseq_filter_left]]) simp
  then show ?thesis by (simp add: set_subseqs_eq)
qed

lemma supplied_subset: "set (map fst (supplied data)) \<subseteq> set data_columns"
  by (auto simp: supplied_def data_columns_def)

lemma supplied_distinct: "distinct (map fst (supplied data))"
  by (simp add: supplied_def)

lemma supplied_field_of: "(col, v) \<in> set (supplied data) \<Longrightarrow> v = field_of data col \<and> ToBoolean v"
  unfolding supplied_def set_filter by (auto simp: field_of_def)

lemma field_of_supplied:
  "col \<in> set data_columns \<Longrightarrow> ToBoolean (field_of data col) \<Longrightarrow>
   (col, field_of data col) \<in> set (supplied data)"
  unfolding supplied_def set_filter by (auto simp: field_of_def data_columns_def)

lemma supplied_without_falsy: "supplied (without_falsy data) = supplied data"
  by (simp add: supplied_def without_falsy_def not_provided_if_falsy_def)

lemma price_rejected_without_falsy: "price_rejected S (without_falsy data) = price_rejected S data"
  by (simp add: price_rejected_def without_falsy_def not_provided_if_falsy_def)

section \<open>The store on the texts the module sends\<close>

lemma parse_insert_text: "parse_statement (sql_tokens insert_text) = Some (Insert [1, 2, 3, 4, 5])"
  by code_simp

lemma parse_select_all_text: "parse_statement (sql_tokens select_all_text) = Some SelectAll"
  by code_simp

lemma parse_select_one_text: "parse_statement (sql_tokens select_one_text) = Some (SelectOne 1)"
  by code_simp

lemma parse_delete_text: "parse_statement (sql_tokens delete_text) = Some (Delete 1)"
  by code_simp

lemma parse_update_text_all:
  "\<forall>cols \<in> set (subseqs data_columns). cols \<noteq> [] \<longrightarrow>
     parse_statement (sql_tokens (update_text (numbered (Suc 0) cols))) =
       Some (Update (zip cols [1..<Suc (length cols)]) (Suc (length cols)))
     \<and> fold max (map snd (zip cols [1..<Suc (length cols)]) @ [Suc (length cols)]) 0 = Suc (length cols)
     \<and> distinct cols"
  by code_simp

lemma parse_update_supplied:
  assumes "supplied data \<noteq> []"
  shows "parse_statement (sql_tokens (update_text (numbered (Suc 0) (map fst (supplied data))))) =
           Some (Update (set_clause data) (Suc (length (supplied data))))"
proof -
  have "map fst (supplied data) \<noteq> []" using assms by simp
  with parse_update_text_all supplied_columns [of data] show ?thesis
    unfolding set_clause_def by (metis length_map)
qed

lemma pg_query_select_all:
  "pg_query select_all_text [] d =
     (Inr \<lparr>rows = newest_first (products d), rowCount = length (products d)\<rparr>, d)"
  by (simp add: pg_query_def parse_select_all_text)

lemma pg_query_select_one:
  "pg_query select_one_text [product_id] d =
     (case pg_id (pg_cell product_id) of
        Inl e \<Rightarrow> (Inl e, d)
      | Inr k \<Rightarrow>
          (Inr \<lparr>rows = filter (has_id k) (products d),
                rowCount = length (filter (has_id k) (products d))\<rparr>, d))"
  by (simp add: pg_query_def parse_select_one_text param_def)

lemma pg_query_delete:
  "pg_query delete_text [product_id] d =
     (case pg_id (pg_cell product_id) of
        Inl e \<Rightarrow> (Inl e, d)
      | Inr k \<Rightarrow>
          (Inr \<lparr>rows = [], rowCount = length (filter (has_id k) (products d))\<rparr>,
           d\<lparr>products := filter (\<lambda>r. \<not> has_id k r) (products d)\<rparr>))"
  by (simp add: pg_query_def parse_delete_text param_def)

lemma pg_query_update:
  assumes "supplied data \<noteq> []"
  shows "pg_query (update_text (numbered (Suc 0) (map fst (supplied data))))
           (map snd (supplied data) @ [product_id]) d =
     (case pg_id (pg_cell product_id) of
        Inl e \<Rightarrow> (Inl e, d)
      | Inr k \<Rightarrow>
          (Inr \<lparr>rows = map (assign (map snd (supplied data) @ [product_id]) (set_clause data))
                         (filter (has_id k) (products d)),
                rowCount = length (filter (has_id k) (products d))\<rparr>,
           d\<lparr>products :=
                map (\<lambda>r. if has_id k r
                         then assign (map snd (supplied data) @ [product_id]) (set_clause data) r
                         else r) (products d)\<rparr>))"
proof -
  let ?cols = "map fst (supplied data)"
  have ne: "?cols \<noteq> []" using assms by simp
  from parse_update_text_all supplied_columns [of data] ne
  have p: "parse_statement (sql_tokens (update_text (numbered (Suc 0) ?cols))) =
       Some (Update (zip ?cols [1..<Suc (length ?cols)]) (Suc (length ?cols)))"
    and m: "fold max (map snd (zip ?cols [1..<Suc (length ?cols)]) @ [Suc (length ?cols)]) 0 = Suc (length ?cols)"
    and dist: "distinct ?cols"
    by blast+
  have fst_zip: "map fst (zip ?cols [1..<Suc (length ?cols)]) = ?cols"
    by (rule map_fst_zip) (simp del: upt_Suc)
  have par: "param (map snd (supplied data) @ [product_id]) (Suc (length (supplied data))) = pg_cell product_id"
    by (simp add: param_def nth_append)
  have len: "Suc 0 \<le> length (supplied data)"
    using assms by (cases "supplied data") simp_all
  show ?thesis
    using m dist supplied_subset [of data] len
    by (simp add: pg_query_def p set_clause_def fst_zip par del: upt_Suc split: sum.splits)
qed

lemma getSingleProduct_store:
  "getSingleProduct pg_query product_id w =
     (case pg_id (pg_cell product_id) of
        Inl e \<Rightarrow>
          (Inr (Failure (message e)),
           console_error ''ERROR FETCHING PRODUCT: '' (Some e)
             (w\<lparr>issued := issued w @ [(select_one_text, [product_id])]\<rparr>))
      | Inr k \<Rightarrow>
          (if filter (has_id k) (products (db w)) = []
           then (Inr (Failure ''Item not found''),
                 console_error ''Item not found'' None
                   (w\<lparr>issued := issued w @ [(select_one_text, [product_id])]\<rparr>))
           else (Inr (SuccessItem (index0 (filter (has_id k) (products (db w))))),
                 w\<lparr>issued := issued w @ [(select_one_text, [product_id])]\<rparr>)))"
  by (simp add: getSingleProduct_eq pg_query_select_one split: sum.splits)

lemma deleteProduct_store:
  "deleteProduct pg_query product_id w =
     (case pg_id (pg_cell product_id) of
        Inl e \<Rightarrow>
          (Inr (Failure (message e)),
           console_error ''ERROR DELETING PRODUCT: '' (Some e)
             (w\<lparr>issued := issued w @ [(delete_text, [product_id])]\<rparr>))
      | Inr k \<Rightarrow>
          (if filter (has_id k) (products (db w)) = []
           then Inr (Failure ''Product not found.'') else Inr Success,
           w\<lparr>db := (db w)\<lparr>products := filter (\<lambda>r. \<not> has_id k r) (products (db w))\<rparr>,
              issued := issued w @ [(delete_text, [product_id])]\<rparr>))"
  by (simp add: deleteProduct_eq pg_query_delete split: sum.splits)

lemma newest_first_sorted: "sorted_wrt (\<lambda>a b. created_at b \<le> created_at a) (newest_first rs)"
proof -
  have "sorted (map (\<lambda>r. - int (created_at r)) (newest_first rs))"
    unfolding newest_first_def by (rule sorted_sort_key)
  then show ?thesis by (simp add: sorted_map)
qed

lemma newest_first_mset: "mset (newest_first rs) = mset rs"
  by (simp add: newest_first_def)

section \<open>Assignments of an UPDATE\<close>

lemma get_set_cell_other: "col \<noteq> c \<Longrightarrow> get_cell col (set_cell c v r) = get_cell col r"
  by (auto simp: get_cell_def set_cell_def)

lemma get_set_cell_same: "c \<in> set data_columns \<Longrightarrow> get_cell c (set_cell c v r) = v"
  by (auto simp: get_cell_def set_cell_def data_columns_def)

lemma set_cell_keys:
  "row_id (set_cell c v r) = row_id r"
  "created_at (set_cell c v r) = created_at r"
  "updated_at (set_cell c v r) = updated_at r"
  by (simp_all add: set_cell_def)

lemma assign_keys:
  "row_id (assign vs as r) = row_id r \<and> created_at (assign vs as r) = created_at r
   \<and> updated_at (assign vs as r) = updated_at r"
  by (induction vs as r rule: assign.induct) (simp_all add: set_cell_keys)

lemma assign_frame:
  "col \<notin> fst ` set as \<Longrightarrow> get_cell col (assign vs as r) = get_cell col r"
  by (induction vs as r rule: assign.induct) (auto simp: get_set_cell_other)

lemma assign_sets:
  "(col, n) \<in> set as \<Longrightarrow> distinct (map fst as) \<Longrightarrow> col \<in> set data_columns \<Longrightarrow>
   get_cell col (assign vs as r) = param vs n"
proof (induction vs as r rule: assign.induct)
  case (1 vs r)
  then show ?case by simp
next
  case (2 vs c m as r)
  show ?case
  proof (cases "(col, n) = (c, m)")
    case True
    with 2 have "col \<notin> fst ` set as" by auto
    then show ?thesis using True 2(4) by (simp add: assign_frame get_set_cell_same)
  next
    case False
    with 2 show ?thesis by auto
  qed
qed

lemma set_clause_fst: "(col, n) \<in> set (set_clause data) \<Longrightarrow> col \<in> fst ` set (supplied data)"
  unfolding set_clause_def by (auto dest!: set_zip_leftD)

lemma set_clause_columns: "map fst (set_clause data) = map fst (supplied data)"
  unfolding set_clause_def by (rule map_fst_zip) (simp del: upt_Suc)

lemma falsy_not_assigned:
  "\<not> ToBoolean (field_of data col) \<Longrightarrow> col \<notin> fst ` set (set_clause data)"
  by (auto dest!: set_clause_fst supplied_field_of)

lemma truthy_assigned:
  assumes "col \<in> set data_columns" "ToBoolean (field_of data col)"
  shows "\<exists>n. (col, n) \<in> set (set_clause data) \<and>
             param (map snd (supplied data) @ [product_id]) n = field_of data col"
proof -
  from field_of_supplied [OF assms] obtain i where
    i: "i < length (supplied data)" "supplied data ! i = (col, field_of data col)"
    by (auto simp: in_set_conv_nth)
  have z: "zip (map fst (supplied data)) [1..<Suc (length (supplied data))] ! i = (col, Suc i)"
    using i by (simp del: upt_Suc)
  have "(col, Suc i) \<in> set (set_clause data)"
    unfolding set_clause_def
    using i z by (metis length_map length_zip length_upt diff_Suc_1 min.idem nth_mem)
  moreover have "param (map snd (supplied data) @ [product_id]) (Suc i) = field_of data col"
    using i assms(2) by (cases "field_of data col") (simp_all add: param_def nth_append)
  ultimately show ?thesis by blast
qed

lemma frame_map:
  assumes "\<And>r. f (g r) = f r"
  shows "map f (map (\<lambda>r. if P r then g r else r) rs) = map f rs"
  using assms by (induction rs) auto

section \<open>Effect of updateProduct on the store\<close>

lemma update_store:
  "\<exists>k. (k = None \<or> pg_id (pg_cell product_id) = Inr k) \<and>
     db (snd (updateProduct S pg_query product_id data w)) =
       (db w)\<lparr>products :=
          map (\<lambda>r. if has_id k r
                   then assign (map snd (supplied data) @ [product_id]) (set_clause data) r
                   else r) (products (db w))\<rparr>"
proof (cases "price_rejected S data \<or> supplied data = []")
  case True
  then have "db (snd (updateProduct S pg_query product_id data w)) = db w"
    by (auto simp: updateProduct_eq)
  then show ?thesis
    by (intro exI [of _ None]) (simp add: has_id_def)
next
  case False
  then have s: "supplied data \<noteq> []" and r: "\<not> price_rejected S data" by simp_all
  show ?thesis
  proof (cases "pg_id (pg_cell product_id)")
    case (Inl e)
    then have "db (snd (updateProduct S pg_query product_id data w)) = db w"
      using r s by (simp add: updateProduct_eq pg_query_update [OF s] console_error_def)
    then show ?thesis
      by (intro exI [of _ None]) (simp add: has_id_def)
  next
    case (Inr k)
    then show ?thesis
      using r s
      by (intro exI [of _ k]) (simp add: updateProduct_eq pg_query_update [OF s])
  qed
qed

lemma update_success:
  assumes "updateProduct S pg_query product_id data w = (Inr (SuccessProduct p), w')"
  shows "\<exists>k r rs. pg_id (pg_cell product_id) = Inr k \<and>
           filter (has_id k) (products (db w)) = r # rs \<and>
           p = Some (assign (map snd (supplied data) @ [product_id]) (set_clause data) r)"
proof -
  from assms have r: "\<not> price_rejected S data" and s: "supplied data \<noteq> []"
    by (auto simp: updateProduct_eq split: if_splits)
  from assms r s obtain k where k: "pg_id (pg_cell product_id) = Inr k"
    by (cases "pg_id (pg_cell product_id)")
       (auto simp: updateProduct_eq pg_query_update [OF s])
  from assms r s k obtain x xs where "filter (has_id k) (products (db w)) = x # xs"
    by (cases "filter (has_id k) (products (db w))")
       (auto simp: updateProduct_eq pg_query_update [OF s])
  with assms r s k show ?thesis
    by (auto simp: updateProduct_eq pg_query_update [OF s])
qed

section \<open>Concrete runs against the store\<close>

lemma pg_id_one: "pg_id (pg_cell (JNum (Fin 1))) = Inr (Some 1)"
  by simp

lemma pg_id_two: "pg_id (pg_cell (JNum (Fin 2))) = Inr (Some 2)"
  by simp

lemma show_nat_one: "show_nat (Suc 0) = ''1''"
  by (simp add: show_nat.simps digit_char_def)

lemma mug_has_id_one: "filter (has_id (Some 1)) (products (db mug_world)) = [mug_row]"
  by (simp add: mug_world_def mug_store_def has_id_def mug_row_def)

lemma mug_has_not_id_two: "filter (has_id (Some 2)) (products (db mug_world)) = []"
  by (simp add: mug_world_def mug_store_def has_id_def mug_row_def)

lemma supplied_zero_price: "supplied zero_price = [(''name'', JStr ''Amp'')]"
  by (simp add: supplied_def zero_price_def)

lemma supplied_new_description:
  "supplied new_description = [(''description'', JStr ''Stoneware mug'')]"
  by (simp add: supplied_def new_description_def)

lemma supplied_name_and_price:
  "supplied name_and_price = [(''name'', JStr ''Amp''), (''price'', JNum (Fin 120))]"
  by (simp add: supplied_def name_and_price_def)

lemma update_zero_price:
  "updateProduct no_strings pg_query (JNum (Fin 1)) zero_price mug_world =
      (Inr (SuccessProduct (Some (mug_row\<lparr>row_name := JStr ''Amp''\<rparr>))),
       \<lparr>db = mug_store\<lparr>products := [mug_row\<lparr>row_name := JStr ''Amp''\<rparr>]\<rparr>,
        issued = [(update_text [''name = $1''], [JStr ''Amp'', JNum (Fin 1)])],
        console = []\<rparr>)"
proof -
  have s: "supplied zero_price \<noteq> []" by (simp add: supplied_zero_price)
  have r: "\<not> price_rejected no_strings zero_price"
    by (simp add: price_rejected_def zero_price_def)
  show ?thesis
    using r
    by (simp add: updateProduct_eq pg_query_update [OF s] pg_id_one)
       (simp add: supplied_zero_price set_clause_def mug_world_def mug_store_def has_id_def
         mug_row_def param_def set_cell_def show_nat_one)
qed

lemma update_new_description:
  "updateProduct no_strings pg_query (JNum (Fin 1)) new_description mug_world =
      (Inr (SuccessProduct (Some (mug_row\<lparr>row_description := JStr ''Stoneware mug''\<rparr>))),
       \<lparr>db = mug_store\<lparr>products := [mug_row\<lparr>row_description := JStr ''Stoneware mug''\<rparr>]\<rparr>,
        issued = [(update_text [''description = $1''], [JStr ''Stoneware mug'', JNum (Fin 1)])],
        console = []\<rparr>)"
proof -
  have sd: "supplied new_description = [(''description'', JStr ''Stoneware mug'')]"
    by (simp add: supplied_def new_description_def)
  have s: "supplied new_description \<noteq> []" by (simp add: sd)
  have r: "\<not> price_rejected no_strings new_description"
    by (simp add: price_rejected_def new_description_def)
  show ?thesis
    using r
    by (simp add: updateProduct_eq pg_query_update [OF s] pg_id_one)
       (simp add: sd set_clause_def mug_world_def mug_store_def has_id_def
         mug_row_def param_def set_cell_def show_nat_one)
qed

section \<open>Rejection of a non-positive price\<close>

text \<open>
  C1, as stated: for every id and every update input in which price is present and
  \<open>\<le> 0\<close>, updateProduct returns the failure "Price must be a positive number.", executes
  no query and leaves the stored row unchanged.  This fails at price \<open>0\<close>: the number 0 is
  falsy, the price check is not reached, and with a name supplied the update is sent to
  the store, succeeds and rewrites the row.
\<close>

theorem zero_price_counterexample:
  "price zero_price = JNum (Fin 0) \<and> js_le_zero no_strings (price zero_price) \<and>
   fst (updateProduct no_strings pg_query (JNum (Fin 1)) zero_price mug_world) \<noteq>
     Inr (Failure ''Price must be a positive number.'') \<and>
   fst (updateProduct no_strings pg_query (JNum (Fin 1)) zero_price mug_world) =
     Inr (SuccessProduct (Some (mug_row\<lparr>row_name := JStr ''Amp''\<rparr>))) \<and>
   issued (snd (updateProduct no_strings pg_query (JNum (Fin 1)) zero_price mug_world)) =
     [(update_text [''name = $1''], [JStr ''Amp'', JNum (Fin 1)])] \<and>
   products (db (snd (updateProduct no_strings pg_query (JNum (Fin 1)) zero_price mug_world))) =
     [mug_row\<lparr>row_name := JStr ''Amp''\<rparr>] \<and>
   mug_row\<lparr>row_name := JStr ''Amp''\<rparr> \<noteq> mug_row"
proof -
  have p: "price zero_price = JNum (Fin 0)"
    by (simp add: zero_price_def)
  have l: "js_le_zero no_strings (price zero_price)"
    by (simp add: zero_price_def js_le_zero_def)
  have n: "mug_row\<lparr>row_name := JStr ''Amp''\<rparr> \<noteq> mug_row"
    by (simp add: mug_row_def)
  show ?thesis
    using p l n by (simp add: update_zero_price)
qed

text \<open>
  C1, amended: for every id and every update input whose price is truthy (present, and
  neither 0 nor NaN nor the empty string) and \<open>\<le> 0\<close> - for a number: a negative price -
  updateProduct returns the failure "Price must be a positive number." and leaves the
  world as it was: no query is issued, the store is untouched, nothing is logged.
\<close>

theorem nonpositive_truthy_price_rejected:
  assumes "ToBoolean (price data)" and "js_le_zero S (price data)"
  shows "updateProduct S c product_id data w =
           (Inr (Failure ''Price must be a positive number.''), w)"
  using assms by (simp add: updateProduct_eq price_rejected_def)

theorem nonpositive_truthy_price_rejected_witness:
  "ToBoolean (price minus_five) \<and> js_le_zero no_strings (price minus_five) \<and>
   updateProduct no_strings pg_query (JNum (Fin 1)) minus_five mug_world =
     (Inr (Failure ''Price must be a positive number.''), mug_world)"
proof -
  have t: "ToBoolean (price minus_five)" by (simp add: minus_five_def)
  have l: "js_le_zero no_strings (price minus_five)"
    by (simp add: minus_five_def js_le_zero_def)
  show ?thesis
    using t l nonpositive_truthy_price_rejected [OF t l, of pg_query "JNum (Fin 1)" mug_world]
    by simp
qed

section \<open>Partial update: the frame\<close>

text \<open>
  C2: a successful updateProduct changes only the fields supplied in the input.  Against
  the store: after a call that returned a success envelope, every row has the identifier,
  the creation and last-update timestamps it had, every data column whose input field
  is not supplied (is absent, or is falsy) holds in every row the value it held, a row
  whose identifier is not the requested one is unchanged altogether, and the returned
  product is a row with the requested identifier whose supplied columns hold the
  supplied values.
\<close>

theorem update_changes_only_supplied_fields:
  assumes "updateProduct S pg_query product_id data w = (Inr (SuccessProduct p), w')"
  shows "map row_id (products (db w')) = map row_id (products (db w)) \<and>
         map created_at (products (db w')) = map created_at (products (db w)) \<and>
         map updated_at (products (db w')) = map updated_at (products (db w)) \<and>
         (\<forall>col \<in> set data_columns. \<not> ToBoolean (field_of data col) \<longrightarrow>
            map (get_cell col) (products (db w')) = map (get_cell col) (products (db w))) \<and>
         (\<forall>i < length (products (db w)).
            pg_id (pg_cell product_id) \<noteq> Inr (Some (row_id (products (db w) ! i))) \<longrightarrow>
            products (db w') ! i = products (db w) ! i) \<and>
         (\<exists>r. p = Some r \<and> pg_id (pg_cell product_id) = Inr (Some (row_id r)) \<and>
              (\<forall>col \<in> set data_columns. ToBoolean (field_of data col) \<longrightarrow>
                 get_cell col r = field_of data col))"
proof -
  let ?vs = "map snd (supplied data) @ [product_id]"
  let ?g = "assign ?vs (set_clause data)"
  from update_store [of product_id S data w] assms obtain k where
    k: "k = None \<or> pg_id (pg_cell product_id) = Inr k" and
    d: "db w' = (db w)\<lparr>products := map (\<lambda>r. if has_id k r then ?g r else r) (products (db w))\<rparr>"
    by auto
  have ps: "products (db w') = map (\<lambda>r. if has_id k r then ?g r else r) (products (db w))"
    by (simp add: d)
  have 1: "map row_id (products (db w')) = map row_id (products (db w))"
    unfolding ps by (rule frame_map) (simp add: assign_keys)
  have 2: "map created_at (products (db w')) = map created_at (products (db w))"
    unfolding ps by (rule frame_map) (simp add: assign_keys)
  have 3: "map updated_at (products (db w')) = map updated_at (products (db w))"
    unfolding ps by (rule frame_map) (simp add: assign_keys)
  have 4: "\<forall>col \<in> set data_columns. \<not> ToBoolean (field_of data col) \<longrightarrow>
            map (get_cell col) (products (db w')) = map (get_cell col) (products (db w))"
  proof (intro ballI impI)
    fix col assume "\<not> ToBoolean (field_of data col)"
    then have "col \<notin> fst ` set (set_clause data)" by (rule falsy_not_assigned)
    then show "map (get_cell col) (products (db w')) = map (get_cell col) (products (db w))"
      unfolding ps by (intro frame_map assign_frame)
  qed
  have 5: "\<forall>i < length (products (db w)).
            pg_id (pg_cell product_id) \<noteq> Inr (Some (row_id (products (db w) ! i))) \<longrightarrow>
            products (db w') ! i = products (db w) ! i"
    using k by (auto simp: ps has_id_def)
  from update_success [OF assms] obtain k' r rs where
    k': "pg_id (pg_cell product_id) = Inr k'" and
    f: "filter (has_id k') (products (db w)) = r # rs" and
    p: "p = Some (?g r)"
    by blast
  from f have "r \<in> set (filter (has_id k') (products (db w)))" by simp
  then have "has_id k' r" by simp
  then have id: "pg_id (pg_cell product_id) = Inr (Some (row_id (?g r)))"
    using k' by (simp add: has_id_def assign_keys)
  have 6: "\<forall>col \<in> set data_columns. ToBoolean (field_of data col) \<longrightarrow>
                 get_cell col (?g r) = field_of data col"
  proof (intro ballI impI)
    fix col assume c: "col \<in> set data_columns" and t: "ToBoolean (field_of data col)"
    from truthy_assigned [OF c t, of product_id] obtain n where
      n: "(col, n) \<in> set (set_clause data)" "param ?vs n = field_of data col" by blast
    have "distinct (map fst (set_clause data))"
      by (simp add: set_clause_columns supplied_distinct)
    from assign_sets [OF n(1) this c, of ?vs r] n(2)
    show "get_cell col (?g r) = field_of data col" by simp
  qed
  from 1 2 3 4 5 p id 6 show ?thesis by blast
qed

theorem update_changes_only_supplied_fields_witness:
  "updateProduct no_strings pg_query (JNum (Fin 1)) new_description mug_world =
      (Inr (SuccessProduct (Some (mug_row\<lparr>row_description := JStr ''Stoneware mug''\<rparr>))),
       \<lparr>db = mug_store\<lparr>products := [mug_row\<lparr>row_description := JStr ''Stoneware mug''\<rparr>]\<rparr>,
        issued = [(update_text [''description = $1''], [JStr ''Stoneware mug'', JNum (Fin 1)])],
        console = []\<rparr>) \<and>
   map row_id [mug_row\<lparr>row_description := JStr ''Stoneware mug''\<rparr>] = map row_id [mug_row] \<and>
   map created_at [mug_row\<lparr>row_description := JStr ''Stoneware mug''\<rparr>] = map created_at [mug_row] \<and>
   map updated_at [mug_row\<lparr>row_description := JStr ''Stoneware mug''\<rparr>] = map updated_at [mug_row] \<and>
   map (get_cell ''name'') [mug_row\<lparr>row_description := JStr ''Stoneware mug''\<rparr>] =
     map (get_cell ''name'') [mug_row] \<and>
   map (get_cell ''price'') [mug_row\<lparr>row_description := JStr ''Stoneware mug''\<rparr>] =
     map (get_cell ''price'') [mug_row] \<and>
   map (get_cell ''category_id'') [mug_row\<lparr>row_description := JStr ''Stoneware mug''\<rparr>] =
     map (get_cell ''category_id'') [mug_row] \<and>
   map (get_cell ''image_url'') [mug_row\<lparr>row_description := JStr ''Stoneware mug''\<rparr>] =
     map (get_cell ''image_url'') [mug_row] \<and>
   get_cell ''description'' (mug_row\<lparr>row_description := JStr ''Stoneware mug''\<rparr>) =
     JStr ''Stoneware mug''"
proof -
  have f: "field_of new_description ''name'' = JUndefined" "field_of new_description ''price'' = JUndefined"
    "field_of new_description ''category_id'' = JUndefined" "field_of new_description ''image_url'' = JUndefined"
    "field_of new_description ''description'' = JStr ''Stoneware mug''"
    by (simp_all add: field_of_def new_description_def)
  have c: "map row_id [mug_row\<lparr>row_description := JStr ''Stoneware mug''\<rparr>] = map row_id [mug_row] \<and>
   map created_at [mug_row\<lparr>row_description := JStr ''Stoneware mug''\<rparr>] = map created_at [mug_row] \<and>
   map updated_at [mug_row\<lparr>row_description := JStr ''Stoneware mug''\<rparr>] = map updated_at [mug_row] \<and>
   map (get_cell ''name'') [mug_row\<lparr>row_description := JStr ''Stoneware mug''\<rparr>] =
     map (get_cell ''name'') [mug_row] \<and>
   map (get_cell ''price'') [mug_row\<lparr>row_description := JStr ''Stoneware mug''\<rparr>] =
     map (get_cell ''price'') [mug_row] \<and>
   map (get_cell ''category_id'') [mug_row\<lparr>row_description := JStr ''Stoneware mug''\<rparr>] =
     map (get_cell ''category_id'') [mug_row] \<and>
   map (get_cell ''image_url'') [mug_row\<lparr>row_description := JStr ''Stoneware mug''\<rparr>] =
     map (get_cell ''image_url'') [mug_row] \<and>
   get_cell ''description'' (mug_row\<lparr>row_description := JStr ''Stoneware mug''\<rparr>) =
     JStr ''Stoneware mug''"
    using update_changes_only_supplied_fields [OF update_new_description]
    by (simp add: data_columns_def f mug_store_def mug_world_def)
  from update_new_description c show ?thesis by (rule conjI)
qed

section \<open>Store errors never leave the module\<close>

text \<open>
  C3: for every input and every store client, each of the five operations returns an
  envelope and never throws; and when the query it hands to the client throws an error,
  the operation returns the failure envelope carrying that error's message.  (For
  updateProduct the query is the one the call issued: an input rejected by validation
  issues none.)
\<close>

theorem store_errors_become_failure_envelopes:
  "(\<exists>env. fst (createProduct c nm ds pr cat img w) = Inr env) \<and>
   (\<exists>env. fst (getProducts c w) = Inr env) \<and>
   (\<exists>env. fst (getSingleProduct c product_id w) = Inr env) \<and>
   (\<exists>env. fst (updateProduct S c product_id data w) = Inr env) \<and>
   (\<exists>env. fst (deleteProduct c product_id w) = Inr env) \<and>
   (\<forall>e. fst (c insert_text [nm, ds, pr, cat, img] (db w)) = Inl e \<longrightarrow>
        fst (createProduct c nm ds pr cat img w) =
          Inr (Failure (message e))) \<and>
   (\<forall>e. fst (c select_all_text [] (db w)) = Inl e \<longrightarrow>
        fst (getProducts c w) = Inr (Failure (message e))) \<and>
   (\<forall>e. fst (c select_one_text [product_id] (db w)) = Inl e \<longrightarrow>
        fst (getSingleProduct c product_id w) = Inr (Failure (message e))) \<and>
   (\<forall>e q vs. issued (snd (updateProduct S c product_id data w)) = issued w @ [(q, vs)] \<longrightarrow>
        fst (c q vs (db w)) = Inl e \<longrightarrow>
        fst (updateProduct S c product_id data w) = Inr (Failure (message e))) \<and>
   (\<forall>e. fst (c delete_text [product_id] (db w)) = Inl e \<longrightarrow>
        fst (deleteProduct c product_id w) = Inr (Failure (message e)))"
proof (intro conjI allI impI)
  show "\<exists>env. fst (createProduct c nm ds pr cat img w) = Inr env"
    by (simp add: createProduct_eq split: prod.splits sum.splits)
  show "\<exists>env. fst (getProducts c w) = Inr env"
    by (simp add: getProducts_eq split: prod.splits sum.splits)
  show "\<exists>env. fst (getSingleProduct c product_id w) = Inr env"
    by (simp add: getSingleProduct_eq split: prod.splits sum.splits)
  show "\<exists>env. fst (updateProduct S c product_id data w) = Inr env"
    by (simp add: updateProduct_eq split: prod.splits sum.splits)
  show "\<exists>env. fst (deleteProduct c product_id w) = Inr env"
    by (simp add: deleteProduct_eq split: prod.splits sum.splits)
next
  fix e assume "fst (c insert_text [nm, ds, pr, cat, img] (db w)) = Inl e"
  then show "fst (createProduct c nm ds pr cat img w) =
          Inr (Failure (message e))"
    by (auto simp: createProduct_eq split: prod.splits sum.splits)
next
  fix e assume "fst (c select_all_text [] (db w)) = Inl e"
  then show "fst (getProducts c w) = Inr (Failure (message e))"
    by (auto simp: getProducts_eq split: prod.splits sum.splits)
next
  fix e assume "fst (c select_one_text [product_id] (db w)) = Inl e"
  then show "fst (getSingleProduct c product_id w) = Inr (Failure (message e))"
    by (auto simp: getSingleProduct_eq split: prod.splits sum.splits)
next
  fix e q vs
  assume i: "issued (snd (updateProduct S c product_id data w)) = issued w @ [(q, vs)]"
    and t: "fst (c q vs (db w)) = Inl e"
  from i have n: "\<not> (price_rejected S data \<or> supplied data = [])"
    and q: "q = update_text (numbered (Suc 0) (map fst (supplied data)))"
    and vs: "vs = map snd (supplied data) @ [product_id]"
    by (auto simp: update_issued split: if_splits)
  show "fst (updateProduct S c product_id data w) = Inr (Failure (message e))"
    using n t unfolding q vs
    by (auto simp: updateProduct_eq split: prod.splits sum.splits)
next
  fix e assume "fst (c delete_text [product_id] (db w)) = Inl e"
  then show "fst (deleteProduct c product_id w) = Inr (Failure (message e))"
    by (auto simp: deleteProduct_eq split: prod.splits sum.splits)
qed

theorem store_errors_become_failure_envelopes_witness:
  "fst (createProduct down (JStr ''Mug'') (JStr ''Ceramic mug'') (JNum (Fin 9.99)) (JNum (Fin 3))
          (JStr ''http://x/mug.png'') mug_world) = Inr (Failure ''connection refused'') \<and>
   fst (getProducts down mug_world) = Inr (Failure ''connection refused'') \<and>
   fst (getSingleProduct down (JNum (Fin 1)) mug_world) = Inr (Failure ''connection refused'') \<and>
   fst (updateProduct no_strings down (JNum (Fin 1)) new_description mug_world) =
     Inr (Failure ''connection refused'') \<and>
   fst (deleteProduct down (JNum (Fin 1)) mug_world) = Inr (Failure ''connection refused'')"
proof -
  note t = store_errors_become_failure_envelopes
    [of down "JStr ''Mug''" "JStr ''Ceramic mug''" "JNum (Fin 9.99)" "JNum (Fin 3)"
        "JStr ''http://x/mug.png''" mug_world "JNum (Fin 1)" no_strings new_description]
  have d: "\<And>q vs. fst (down q vs (db mug_world)) = Inl (Error ''connection refused'')"
    by (simp add: down_def)
  have r: "\<not> price_rejected no_strings new_description"
    by (simp add: price_rejected_def new_description_def)
  have i: "issued (snd (updateProduct no_strings down (JNum (Fin 1)) new_description mug_world)) =
     issued mug_world @ [(update_text (numbered (Suc 0) [''description'']),
                          [JStr ''Stoneware mug'', JNum (Fin 1)])]"
    using r by (simp add: update_issued supplied_new_description)
  from t d have 1: "fst (createProduct down (JStr ''Mug'') (JStr ''Ceramic mug'') (JNum (Fin 9.99))
          (JNum (Fin 3)) (JStr ''http://x/mug.png'') mug_world) = Inr (Failure ''connection refused'')"
    by (metis js_error.sel)
  from t d have 2: "fst (getProducts down mug_world) = Inr (Failure ''connection refused'')"
    by (metis js_error.sel)
  from t d have 3: "fst (getSingleProduct down (JNum (Fin 1)) mug_world) =
      Inr (Failure ''connection refused'')"
    by (metis js_error.sel)
  from t d i have 4: "fst (updateProduct no_strings down (JNum (Fin 1)) new_description mug_world) =
     Inr (Failure ''connection refused'')"
    by (metis js_error.sel)
  from t d have 5: "fst (deleteProduct down (JNum (Fin 1)) mug_world) =
      Inr (Failure ''connection refused'')"
    by (metis js_error.sel)
  from 1 2 3 4 5 show ?thesis by blast
qed

section \<open>Falsy fields\<close>

text \<open>
  C4: updateProduct treats every falsy field value (a price of 0, an empty name, null,
  false, NaN) as not provided.  For every client the call does exactly what it does on
  the input with the falsy fields removed (same envelope, same query, same effect), so
  no validation looks at such a field; every query the call issues is an UPDATE whose
  SET clause, as the store reads it, names no column of a falsy field; and against the
  store the column of a falsy field holds in every row the value it held.
\<close>

theorem falsy_fields_treated_as_not_provided:
  "updateProduct S c product_id data w = updateProduct S c product_id (without_falsy data) w \<and>
   (\<exists>new. issued (snd (updateProduct S c product_id data w)) = issued w @ new \<and>
      (\<forall>qv \<in> set new. \<exists>as n.
          parse_statement (sql_tokens (fst qv)) = Some (Update as n) \<and>
          (\<forall>col \<in> set data_columns.
              \<not> ToBoolean (field_of data col) \<longrightarrow> col \<notin> fst ` set as))) \<and>
   (\<forall>col \<in> set data_columns. \<not> ToBoolean (field_of data col) \<longrightarrow>
      map (get_cell col) (products (db (snd (updateProduct S pg_query product_id data w)))) =
      map (get_cell col) (products (db w)))"
proof (intro conjI)
  show "updateProduct S c product_id data w = updateProduct S c product_id (without_falsy data) w"
    by (simp only: updateProduct_eq supplied_without_falsy price_rejected_without_falsy)
next
  show "\<exists>new. issued (snd (updateProduct S c product_id data w)) = issued w @ new \<and>
      (\<forall>qv \<in> set new. \<exists>as n.
          parse_statement (sql_tokens (fst qv)) = Some (Update as n) \<and>
          (\<forall>col \<in> set data_columns.
              \<not> ToBoolean (field_of data col) \<longrightarrow> col \<notin> fst ` set as))"
  proof (cases "price_rejected S data \<or> supplied data = []")
    case True
    then show ?thesis by (intro exI [of _ "[]"]) (simp add: update_issued)
  next
    case False
    then have s: "supplied data \<noteq> []" by simp
    show ?thesis
      using False falsy_not_assigned [of data]
      by (intro exI [of _ "[(update_text (numbered (Suc 0) (map fst (supplied data))),
               map snd (supplied data) @ [product_id])]"])
         (simp add: update_issued parse_update_supplied [OF s])
  qed
next
  show "\<forall>col \<in> set data_columns. \<not> ToBoolean (field_of data col) \<longrightarrow>
      map (get_cell col) (products (db (snd (updateProduct S pg_query product_id data w)))) =
      map (get_cell col) (products (db w))"
  proof (intro ballI impI)
    fix col assume "\<not> ToBoolean (field_of data col)"
    then have n: "col \<notin> fst ` set (set_clause data)" by (rule falsy_not_assigned)
    from update_store [of product_id S data w] obtain k where
      "db (snd (updateProduct S pg_query product_id data w)) =
       (db w)\<lparr>products :=
          map (\<lambda>r. if has_id k r
                   then assign (map snd (supplied data) @ [product_id]) (set_clause data) r
                   else r) (products (db w))\<rparr>" by blast
    then have "products (db (snd (updateProduct S pg_query product_id data w))) =
          map (\<lambda>r. if has_id k r
                   then assign (map snd (supplied data) @ [product_id]) (set_clause data) r
                   else r) (products (db w))" by simp
    then show "map (get_cell col) (products (db (snd (updateProduct S pg_query product_id data w)))) =
      map (get_cell col) (products (db w))"
      using n by (simp only:) (intro frame_map assign_frame)
  qed
qed

theorem falsy_fields_treated_as_not_provided_witness:
  "\<not> ToBoolean (field_of zero_price ''price'') \<and>
   without_falsy zero_price =
     \<lparr>name = JStr ''Amp'', description = JUndefined, price = JUndefined,
      category_id = JUndefined, image_url = JUndefined\<rparr> \<and>
   updateProduct no_strings pg_query (JNum (Fin 1)) zero_price mug_world =
     updateProduct no_strings pg_query (JNum (Fin 1)) (without_falsy zero_price) mug_world \<and>
   issued (snd (updateProduct no_strings pg_query (JNum (Fin 1)) zero_price mug_world)) =
     [(update_text [''name = $1''], [JStr ''Amp'', JNum (Fin 1)])] \<and>
   map (get_cell ''price'')
     (products (db (snd (updateProduct no_strings pg_query (JNum (Fin 1)) zero_price mug_world)))) =
     map (get_cell ''price'') (products (db mug_world))"
proof -
  have f: "\<not> ToBoolean (field_of zero_price ''price'')"
    by (simp add: field_of_def zero_price_def)
  have wf: "without_falsy zero_price =
     \<lparr>name = JStr ''Amp'', description = JUndefined, price = JUndefined,
      category_id = JUndefined, image_url = JUndefined\<rparr>"
    by (simp add: without_falsy_def not_provided_if_falsy_def zero_price_def)
  have i: "issued (snd (updateProduct no_strings pg_query (JNum (Fin 1)) zero_price mug_world)) =
     [(update_text [''name = $1''], [JStr ''Amp'', JNum (Fin 1)])]"
    by (simp add: update_zero_price)
  note t = falsy_fields_treated_as_not_provided
             [of no_strings pg_query "JNum (Fin 1)" zero_price mug_world]
  from t have e: "updateProduct no_strings pg_query (JNum (Fin 1)) zero_price mug_world =
     updateProduct no_strings pg_query (JNum (Fin 1)) (without_falsy zero_price) mug_world"
    by (rule conjunct1)
  from t have b: "\<forall>col \<in> set data_columns. \<not> ToBoolean (field_of zero_price col) \<longrightarrow>
      map (get_cell col)
        (products (db (snd (updateProduct no_strings pg_query (JNum (Fin 1)) zero_price mug_world)))) =
      map (get_cell col) (products (db mug_world))"
    by (elim conjE)
  have m: "''price'' \<in> set data_columns" by (simp add: data_columns_def)
  from b m f have p: "map (get_cell ''price'')
     (products (db (snd (updateProduct no_strings pg_query (JNum (Fin 1)) zero_price mug_world)))) =
     map (get_cell ''price'') (products (db mug_world))"
    by blast
  from f wf e i p show ?thesis by blast
qed

section \<open>Rejection of an update without fields\<close>

text \<open>
  C5: for every id and every update input with no truthy field among name, description,
  price, category_id and image_url, updateProduct returns the validation failure
  "No fields to update." and leaves the world as it was: no query is issued and the
  store is not touched.
\<close>

theorem empty_update_rejected:
  assumes "\<not> ToBoolean (name data)" and "\<not> ToBoolean (description data)"
    and "\<not> ToBoolean (price data)" and "\<not> ToBoolean (category_id data)"
    and "\<not> ToBoolean (image_url data)"
  shows "updateProduct S c product_id data w = (Inr (Failure ''No fields to update.''), w)"
  using assms by (simp add: updateProduct_eq price_rejected_def supplied_def)

theorem empty_update_rejected_witness:
  "updateProduct no_strings pg_query (JNum (Fin 1)) no_fields mug_world =
     (Inr (Failure ''No fields to update.''), mug_world)"
  using empty_update_rejected [of no_fields no_strings pg_query "JNum (Fin 1)" mug_world]
  by (simp add: no_fields_def)

section \<open>Reading one product\<close>

text \<open>
  C6: for every id, getSingleProduct returns a success envelope carrying the row matching
  that id when one exists and the not-found failure when zero rows match, and it never
  throws.  For every client the call returns an envelope; when the query resolves, an
  empty result gives the failure "Item not found" and a non-empty one the success
  envelope with its first row.  Against the store, for an id that reads as an integer:
  no row with that identifier gives "Item not found", a row with that identifier is
  returned in the success envelope, and the store is left as it was.
\<close>

theorem getSingleProduct_found_or_not_found:
  "(\<exists>env. fst (getSingleProduct c product_id w) = Inr env) \<and>
   (\<forall>res d'. c select_one_text [product_id] (db w) = (Inr res, d') \<longrightarrow>
      (rows res = [] \<longrightarrow>
         fst (getSingleProduct c product_id w) = Inr (Failure ''Item not found'')) \<and>
      (\<forall>r rs. rows res = r # rs \<longrightarrow>
         fst (getSingleProduct c product_id w) = Inr (SuccessItem (Some r)))) \<and>
   (\<forall>k. pg_id (pg_cell product_id) = Inr k \<longrightarrow>
      (filter (has_id k) (products (db w)) = [] \<longrightarrow>
         fst (getSingleProduct pg_query product_id w) = Inr (Failure ''Item not found'')) \<and>
      (\<forall>r rs. filter (has_id k) (products (db w)) = r # rs \<longrightarrow>
         fst (getSingleProduct pg_query product_id w) = Inr (SuccessItem (Some r))) \<and>
      db (snd (getSingleProduct pg_query product_id w)) = db w)"
proof (intro conjI)
  show "\<exists>env. fst (getSingleProduct c product_id w) = Inr env"
    by (simp add: getSingleProduct_eq split: prod.splits sum.splits)
  show "\<forall>res d'. c select_one_text [product_id] (db w) = (Inr res, d') \<longrightarrow>
      (rows res = [] \<longrightarrow>
         fst (getSingleProduct c product_id w) = Inr (Failure ''Item not found'')) \<and>
      (\<forall>r rs. rows res = r # rs \<longrightarrow>
         fst (getSingleProduct c product_id w) = Inr (SuccessItem (Some r)))"
    by (simp add: getSingleProduct_eq)
  show "\<forall>k. pg_id (pg_cell product_id) = Inr k \<longrightarrow>
      (filter (has_id k) (products (db w)) = [] \<longrightarrow>
         fst (getSingleProduct pg_query product_id w) = Inr (Failure ''Item not found'')) \<and>
      (\<forall>r rs. filter (has_id k) (products (db w)) = r # rs \<longrightarrow>
         fst (getSingleProduct pg_query product_id w) = Inr (SuccessItem (Some r))) \<and>
      db (snd (getSingleProduct pg_query product_id w)) = db w"
    by (simp add: getSingleProduct_store console_error_def)
qed

theorem getSingleProduct_found_or_not_found_witness:
  "fst (getSingleProduct pg_query (JNum (Fin 1)) mug_world) = Inr (SuccessItem (Some mug_row)) \<and>
   fst (getSingleProduct pg_query (JNum (Fin 2)) mug_world) = Inr (Failure ''Item not found'')"
proof -
  from getSingleProduct_found_or_not_found [of pg_query "JNum (Fin 1)" mug_world]
    pg_id_one mug_has_id_one
  have 1: "fst (getSingleProduct pg_query (JNum (Fin 1)) mug_world) =
      Inr (SuccessItem (Some mug_row))" by blast
  from getSingleProduct_found_or_not_found [of pg_query "JNum (Fin 2)" mug_world]
    pg_id_two mug_has_not_id_two
  have 2: "fst (getSingleProduct pg_query (JNum (Fin 2)) mug_world) =
      Inr (Failure ''Item not found'')" by blast
  from 1 2 show ?thesis by (rule conjI)
qed

section \<open>Deleting one product\<close>

text \<open>
  C7: for every id, deleteProduct deletes the row matching that id and returns the
  success envelope without payload when a row was affected, and the not-found failure
  when zero rows were affected.  For every client the envelope follows the row count
  of the result; against the store, for an id that reads as an integer, the rows with
  that identifier are gone afterwards, every other row is kept, and the envelope is
  the success envelope when there was such a row and "Product not found." otherwise.
\<close>

theorem deleteProduct_deleted_or_not_found:
  "(\<forall>res d'. c delete_text [product_id] (db w) = (Inr res, d') \<longrightarrow>
      fst (deleteProduct c product_id w) =
        (if rowCount res = 0 then Inr (Failure ''Product not found.'') else Inr Success)) \<and>
   (\<forall>k. pg_id (pg_cell product_id) = Inr k \<longrightarrow>
      products (db (snd (deleteProduct pg_query product_id w))) =
        filter (\<lambda>r. \<not> has_id k r) (products (db w)) \<and>
      fst (deleteProduct pg_query product_id w) =
        (if filter (has_id k) (products (db w)) = []
         then Inr (Failure ''Product not found.'') else Inr Success))"
proof (intro conjI)
  show "\<forall>res d'. c delete_text [product_id] (db w) = (Inr res, d') \<longrightarrow>
      fst (deleteProduct c product_id w) =
        (if rowCount res = 0 then Inr (Failure ''Product not found.'') else Inr Success)"
    by (simp add: deleteProduct_eq)
  show "\<forall>k. pg_id (pg_cell product_id) = Inr k \<longrightarrow>
      products (db (snd (deleteProduct pg_query product_id w))) =
        filter (\<lambda>r. \<not> has_id k r) (products (db w)) \<and>
      fst (deleteProduct pg_query product_id w) =
        (if filter (has_id k) (products (db w)) = []
         then Inr (Failure ''Product not found.'') else Inr Success)"
    by (simp add: deleteProduct_store)
qed

theorem deleteProduct_deleted_or_not_found_witness:
  "fst (deleteProduct pg_query (JNum (Fin 1)) mug_world) = Inr Success \<and>
   products (db (snd (deleteProduct pg_query (JNum (Fin 1)) mug_world))) = [] \<and>
   fst (deleteProduct pg_query (JNum (Fin 2)) mug_world) = Inr (Failure ''Product not found.'') \<and>
   products (db (snd (deleteProduct pg_query (JNum (Fin 2)) mug_world))) = [mug_row]"
proof -
  have f1: "filter (\<lambda>r. \<not> has_id (Some 1) r) (products (db mug_world)) = []"
    by (simp add: mug_world_def mug_store_def has_id_def mug_row_def)
  have f2: "filter (\<lambda>r. \<not> has_id (Some 2) r) (products (db mug_world)) = [mug_row]"
    by (simp add: mug_world_def mug_store_def has_id_def mug_row_def)
  from deleteProduct_deleted_or_not_found [of pg_query "JNum (Fin 1)" mug_world] pg_id_one
  have 1: "products (db (snd (deleteProduct pg_query (JNum (Fin 1)) mug_world))) =
        filter (\<lambda>r. \<not> has_id (Some 1) r) (products (db mug_world)) \<and>
      fst (deleteProduct pg_query (JNum (Fin 1)) mug_world) =
        (if filter (has_id (Some 1)) (products (db mug_world)) = []
         then Inr (Failure ''Product not found.'') else Inr Success)" by blast
  from deleteProduct_deleted_or_not_found [of pg_query "JNum (Fin 2)" mug_world] pg_id_two
  have 2: "products (db (snd (deleteProduct pg_query (JNum (Fin 2)) mug_world))) =
        filter (\<lambda>r. \<not> has_id (Some 2) r) (products (db mug_world)) \<and>
      fst (deleteProduct pg_query (JNum (Fin 2)) mug_world) =
        (if filter (has_id (Some 2)) (products (db mug_world)) = []
         then Inr (Failure ''Product not found.'') else Inr Success)" by blast
  from 1 2 show ?thesis
    by (simp add: f1 f2 mug_has_id_one mug_has_not_id_two)
qed

section \<open>Listing\<close>

text \<open>
  C8: getProducts returns all product rows of the store, most recently created first,
  with no pagination, filtering or limit.  For every client the envelope carries the rows
  of the result as they are; against the store the envelope carries every row of the
  table exactly once, ordered by creation time descending, and the store is left as it
  was.
\<close>

theorem getProducts_all_newest_first:
  "(\<forall>res d'. c select_all_text [] (db w) = (Inr res, d') \<longrightarrow>
      getProducts c w =
        (Inr (SuccessProducts (rows res)),
         w\<lparr>db := d', issued := issued w @ [(select_all_text, [])]\<rparr>)) \<and>
   (\<exists>rs. getProducts pg_query w =
            (Inr (SuccessProducts rs), w\<lparr>issued := issued w @ [(select_all_text, [])]\<rparr>) \<and>
         mset rs = mset (products (db w)) \<and>
         sorted_wrt (\<lambda>a b. created_at b \<le> created_at a) rs)"
proof (intro conjI)
  show "\<forall>res d'. c select_all_text [] (db w) = (Inr res, d') \<longrightarrow>
      getProducts c w =
        (Inr (SuccessProducts (rows res)),
         w\<lparr>db := d', issued := issued w @ [(select_all_text, [])]\<rparr>)"
    by (simp add: getProducts_eq)
  show "\<exists>rs. getProducts pg_query w =
            (Inr (SuccessProducts rs), w\<lparr>issued := issued w @ [(select_all_text, [])]\<rparr>) \<and>
         mset rs = mset (products (db w)) \<and>
         sorted_wrt (\<lambda>a b. created_at b \<le> created_at a) rs"
    by (intro exI [of _ "newest_first (products (db w))"])
       (simp add: getProducts_eq pg_query_select_all newest_first_sorted newest_first_mset)
qed

theorem getProducts_all_newest_first_witness:
  "getProducts pg_query two_products =
     (Inr (SuccessProducts [amp_row, mug_row]),
      two_products\<lparr>issued := [(select_all_text, [])]\<rparr>)"
proof -
  have q: "pg_query select_all_text [] (db two_products) =
      (Inr \<lparr>rows = [amp_row, mug_row], rowCount = 2\<rparr>, db two_products)"
    by (simp add: pg_query_select_all two_products_def newest_first_def mug_row_def amp_row_def)
  from getProducts_all_newest_first [of pg_query two_products] q
  have "getProducts pg_query two_products =
     (Inr (SuccessProducts (rows \<lparr>rows = [amp_row, mug_row], rowCount = 2\<rparr>)),
      two_products\<lparr>db := db two_products, issued := issued two_products @ [(select_all_text, [])]\<rparr>)"
    by blast
  then show ?thesis by (simp add: two_products_def)
qed

section \<open>The text of the UPDATE\<close>

text \<open>
  C9: for every update input that passes validation (the price is not rejected and at
  least one field is truthy), the query built by updateProduct is well-formed.  With
  \<open>k\<close> included fields, the call issues one query; its SET clause is the \<open>k\<close>
  assignments joined by ", ", the \<open>i\<close>-th being the \<open>i\<close>-th included column with the
  placeholder \<open>$i\<close> and the \<open>i\<close>-th element of the values array being that column's
  value; its WHERE clause uses \<open>$(k+1)\<close>; the values array has \<open>k + 1\<close> elements, the
  last being product_id; and the store reads the text as that UPDATE.
\<close>

theorem update_query_well_formed:
  assumes "\<not> price_rejected S data" and "supplied data \<noteq> []"
  shows "issued (snd (updateProduct S c product_id data w)) =
           issued w @
           [(NL @ ''      UPDATE products '' @
             NL @ ''      SET '' @ join '', '' (numbered 1 (map fst (supplied data))) @ '' '' @
             NL @ ''      WHERE id = $'' @ show_nat (length (supplied data) + 1) @ '' '' @
             NL @ ''      '' @ returning_clause @
             NL @ ''    '',
             map snd (supplied data) @ [product_id])] \<and>
         length (numbered 1 (map fst (supplied data))) = length (supplied data) \<and>
         length (map snd (supplied data) @ [product_id]) = length (supplied data) + 1 \<and>
         (\<forall>i < length (supplied data).
            numbered 1 (map fst (supplied data)) ! i =
              fst (supplied data ! i) @ '' = $'' @ show_nat (i + 1) \<and>
            (map snd (supplied data) @ [product_id]) ! i = snd (supplied data ! i)) \<and>
         (map snd (supplied data) @ [product_id]) ! length (supplied data) = product_id \<and>
         last (map snd (supplied data) @ [product_id]) = product_id \<and>
         parse_statement (sql_tokens (update_text (numbered 1 (map fst (supplied data))))) =
           Some (Update (zip (map fst (supplied data)) [1..<length (supplied data) + 1])
                        (length (supplied data) + 1))"
proof (intro conjI)
  show "issued (snd (updateProduct S c product_id data w)) =
           issued w @
           [(NL @ ''      UPDATE products '' @
             NL @ ''      SET '' @ join '', '' (numbered 1 (map fst (supplied data))) @ '' '' @
             NL @ ''      WHERE id = $'' @ show_nat (length (supplied data) + 1) @ '' '' @
             NL @ ''      '' @ returning_clause @
             NL @ ''    '',
             map snd (supplied data) @ [product_id])]"
    using assms by (simp add: update_issued update_text_def)
  show "\<forall>i < length (supplied data).
            numbered 1 (map fst (supplied data)) ! i =
              fst (supplied data ! i) @ '' = $'' @ show_nat (i + 1) \<and>
            (map snd (supplied data) @ [product_id]) ! i = snd (supplied data ! i)"
    by (simp add: numbered_nth nth_append)
  show "parse_statement (sql_tokens (update_text (numbered 1 (map fst (supplied data))))) =
           Some (Update (zip (map fst (supplied data)) [1..<length (supplied data) + 1])
                        (length (supplied data) + 1))"
    using parse_update_supplied [OF assms(2)] by (simp add: set_clause_def del: upt_Suc)
qed (simp_all add: nth_append)

theorem update_query_well_formed_witness:
  "issued (snd (updateProduct no_strings pg_query (JNum (Fin 1)) name_and_price mug_world)) =
     [(NL @ ''      UPDATE products '' @
       NL @ ''      SET name = $1, price = $2 '' @
       NL @ ''      WHERE id = $3 '' @
       NL @ ''      '' @ returning_clause @
       NL @ ''    '',
       [JStr ''Amp'', JNum (Fin 120), JNum (Fin 1)])] \<and>
   parse_statement (sql_tokens (update_text [''name = $1'', ''price = $2''])) =
     Some (Update [(''name'', 1), (''price'', 2)] 3)"
proof -
  have r: "\<not> price_rejected no_strings name_and_price"
    by (simp add: price_rejected_def name_and_price_def js_le_zero_def)
  have s: "supplied name_and_price \<noteq> []"
    by (simp add: supplied_name_and_price)
  have n: "show_nat (Suc 0) = ''1''" "show_nat (Suc (Suc 0)) = ''2''"
    "show_nat (Suc (Suc (Suc 0))) = ''3''"
    by (simp_all add: show_nat.simps digit_char_def)
  show ?thesis
    using update_query_well_formed [OF r s, of pg_query "JNum (Fin 1)" mug_world]
    by (simp add: supplied_name_and_price n mug_world_def)
qed

section \<open>The not-found messages\<close>

text \<open>
  C10: the not-found message is not uniform.  When the query resolves without a row (for
  deleteProduct: with row count 0), getSingleProduct returns the failure "Item not found"
  while updateProduct (on an input that passes validation, so that a query is issued)
  and deleteProduct return "Product not found."; the same holds against the store for
  every id that matches zero rows; and the two messages are different strings.
\<close>

theorem not_found_messages:
  "(\<forall>res d'. c select_one_text [product_id] (db w) = (Inr res, d') \<longrightarrow> rows res = [] \<longrightarrow>
      fst (getSingleProduct c product_id w) = Inr (Failure ''Item not found'')) \<and>
   (\<forall>res d'. \<not> price_rejected S data \<longrightarrow> supplied data \<noteq> [] \<longrightarrow>
      c (update_text (numbered (Suc 0) (map fst (supplied data))))
        (map snd (supplied data) @ [product_id]) (db w) = (Inr res, d') \<longrightarrow>
      rows res = [] \<longrightarrow>
      fst (updateProduct S c product_id data w) = Inr (Failure ''Product not found.'')) \<and>
   (\<forall>res d'. c delete_text [product_id] (db w) = (Inr res, d') \<longrightarrow> rowCount res = 0 \<longrightarrow>
      fst (deleteProduct c product_id w) = Inr (Failure ''Product not found.'')) \<and>
   (\<forall>k. pg_id (pg_cell product_id) = Inr k \<longrightarrow>
        filter (has_id k) (products (db w)) = [] \<longrightarrow>
      fst (getSingleProduct pg_query product_id w) = Inr (Failure ''Item not found'') \<and>
      (\<not> price_rejected S data \<longrightarrow> supplied data \<noteq> [] \<longrightarrow>
         fst (updateProduct S pg_query product_id data w) = Inr (Failure ''Product not found.'')) \<and>
      fst (deleteProduct pg_query product_id w) = Inr (Failure ''Product not found.'')) \<and>
   ''Item not found'' \<noteq> ''Product not found.''"
proof (intro conjI)
  show "\<forall>res d'. c select_one_text [product_id] (db w) = (Inr res, d') \<longrightarrow> rows res = [] \<longrightarrow>
      fst (getSingleProduct c product_id w) = Inr (Failure ''Item not found'')"
    by (simp add: getSingleProduct_eq)
  show "\<forall>res d'. \<not> price_rejected S data \<longrightarrow> supplied data \<noteq> [] \<longrightarrow>
      c (update_text (numbered (Suc 0) (map fst (supplied data))))
        (map snd (supplied data) @ [product_id]) (db w) = (Inr res, d') \<longrightarrow>
      rows res = [] \<longrightarrow>
      fst (updateProduct S c product_id data w) = Inr (Failure ''Product not found.'')"
    by (simp add: updateProduct_eq)
  show "\<forall>res d'. c delete_text [product_id] (db w) = (Inr res, d') \<longrightarrow> rowCount res = 0 \<longrightarrow>
      fst (deleteProduct c product_id w) = Inr (Failure ''Product not found.'')"
    by (simp add: deleteProduct_eq)
  show "\<forall>k. pg_id (pg_cell product_id) = Inr k \<longrightarrow>
        filter (has_id k) (products (db w)) = [] \<longrightarrow>
      fst (getSingleProduct pg_query product_id w) = Inr (Failure ''Item not found'') \<and>
      (\<not> price_rejected S data \<longrightarrow> supplied data \<noteq> [] \<longrightarrow>
         fst (updateProduct S pg_query product_id data w) = Inr (Failure ''Product not found.'')) \<and>
      fst (deleteProduct pg_query product_id w) = Inr (Failure ''Product not found.'')"
    by (simp add: getSingleProduct_store deleteProduct_store updateProduct_eq pg_query_update)
  show "''Item not found'' \<noteq> ''Product not found.''"
    by simp
qed

theorem not_found_messages_witness:
  "fst (getSingleProduct pg_query (JNum (Fin 2)) mug_world) = Inr (Failure ''Item not found'') \<and>
   fst (updateProduct no_strings pg_query (JNum (Fin 2)) new_description mug_world) =
     Inr (Failure ''Product not found.'') \<and>
   fst (deleteProduct pg_query (JNum (Fin 2)) mug_world) = Inr (Failure ''Product not found.'')"
proof -
  have r: "\<not> price_rejected no_strings new_description"
    by (simp add: price_rejected_def new_description_def)
  have s: "supplied new_description \<noteq> []"
    by (simp add: supplied_new_description)
  from not_found_messages [of pg_query "JNum (Fin 2)" mug_world no_strings new_description]
    pg_id_two mug_has_not_id_two r s
  show ?thesis by blast
qed

end
